theory Spec2Isabelle
  imports Complex_Main "HOL-Library.AList"
begin

section \<open>Values of the JavaScript run time\<close>

text \<open>
  A JavaScript number, as far as the module looks at one: it compares numbers with zero
  and negates them. The finite doubles are rationals; both zeros are \<open>Finite 0\<close>
  (\<open>-0 === 0\<close> holds and \<open>-0 < 0\<close> does not).
\<close>

datatype number = NaN | NegInfinity | Finite rat | Infinity

definition is_zero :: "number \<Rightarrow> bool" where
  \<comment> \<open>\<open>n === 0\<close>\<close>
  "is_zero n = (n = Finite 0)"

definition less_zero :: "number \<Rightarrow> bool" where
  \<comment> \<open>\<open>n < 0\<close>: false for NaN\<close>
  "less_zero n = (case n of Finite r \<Rightarrow> r < 0 | NegInfinity \<Rightarrow> True | _ \<Rightarrow> False)"

definition negate :: "number \<Rightarrow> number" where
  \<comment> \<open>\<open>n * -1\<close>\<close>
  "negate n = (case n of Finite r \<Rightarrow> Finite (- r) | NegInfinity \<Rightarrow> Infinity
                 | Infinity \<Rightarrow> NegInfinity | NaN \<Rightarrow> NaN)"

text \<open>
  A \<open>Date\<close> object is its time value in milliseconds; \<open>None\<close> is the Invalid Date
  (time value NaN). \<open>a > b\<close> on two dates compares the time values and is false as
  soon as one of them is NaN.
\<close>

type_synonym date = "int option"

definition date_gt :: "date \<Rightarrow> date \<Rightarrow> bool" where
  "date_gt a b = (case (a, b) of (Some x, Some y) \<Rightarrow> x > y | _ \<Rightarrow> False)"

text \<open>
  A string is the list of the bytes of its UTF-8 encoding: an ASCII character is one
  byte, and a character beyond ASCII is two to four bytes, each with its top bit set (a
  UTF-16 code unit that is half of no pair is the three bytes that this encoding gives
  its number).

  \<open>toUpperCase\<close> and \<open>toLowerCase\<close> follow the Unicode Character Database. On an ASCII
  letter they change the case. The tables below list, by its bytes, every character
  beyond ASCII whose upper-case form (\<open>special_upper\<close>) or lower-case form
  (\<open>special_lower\<close>) holds an ASCII character: such a character is replaced by the bytes
  of that form. The form of any other character beyond ASCII holds no ASCII character,
  and the model leaves the bytes of such a character as they are. So the model's result
  and JavaScript's have the same ASCII characters in the same order, and one has a
  character beyond ASCII exactly when the other has: one equals a string of ASCII
  characters exactly when the other does. The module compares the results with such
  strings only (\<open>BTC\<close>, \<open>USD\<close>, \<open>finished\<close>); the one result that it sends, the
  signature, is the conversion of hexadecimal digits.
\<close>

definition lower_letters :: string where
  "lower_letters = ''abcdefghijklmnopqrstuvwxyz''"

definition upper_letters :: string where
  "upper_letters = ''ABCDEFGHIJKLMNOPQRSTUVWXYZ''"

definition upper_char :: "char \<Rightarrow> char" where
  "upper_char c = (case map_of (zip lower_letters upper_letters) c of Some u \<Rightarrow> u | None \<Rightarrow> c)"

definition lower_char :: "char \<Rightarrow> char" where
  "lower_char c = (case map_of (zip upper_letters lower_letters) c of Some l \<Rightarrow> l | None \<Rightarrow> c)"

definition special_upper :: "(string \<times> string) list" where
  "special_upper =
     [([CHR 0xC3, CHR 0x9F], ''SS''),                              \<comment> \<open>U+00DF, sharp s\<close>
      ([CHR 0xC4, CHR 0xB1], ''I''),                               \<comment> \<open>U+0131, dotless i\<close>
      ([CHR 0xC5, CHR 0x89], [CHR 0xCA, CHR 0xBC, CHR ''N'']),     \<comment> \<open>U+0149: U+02BC, N\<close>
      ([CHR 0xC5, CHR 0xBF], ''S''),                               \<comment> \<open>U+017F, long s\<close>
      ([CHR 0xC7, CHR 0xB0], [CHR ''J'', CHR 0xCC, CHR 0x8C]),     \<comment> \<open>U+01F0: J, U+030C\<close>
      ([CHR 0xE1, CHR 0xBA, CHR 0x96], [CHR ''H'', CHR 0xCC, CHR 0xB1]),  \<comment> \<open>U+1E96: H, U+0331\<close>
      ([CHR 0xE1, CHR 0xBA, CHR 0x97], [CHR ''T'', CHR 0xCC, CHR 0x88]),  \<comment> \<open>U+1E97: T, U+0308\<close>
      ([CHR 0xE1, CHR 0xBA, CHR 0x98], [CHR ''W'', CHR 0xCC, CHR 0x8A]),  \<comment> \<open>U+1E98: W, U+030A\<close>
      ([CHR 0xE1, CHR 0xBA, CHR 0x99], [CHR ''Y'', CHR 0xCC, CHR 0x8A]),  \<comment> \<open>U+1E99: Y, U+030A\<close>
      ([CHR 0xE1, CHR 0xBA, CHR 0x9A], [CHR ''A'', CHR 0xCA, CHR 0xBE]),  \<comment> \<open>U+1E9A: A, U+02BE\<close>
      ([CHR 0xEF, CHR 0xAC, CHR 0x80], ''FF''),                    \<comment> \<open>U+FB00, ligature ff\<close>
      ([CHR 0xEF, CHR 0xAC, CHR 0x81], ''FI''),                    \<comment> \<open>U+FB01\<close>
      ([CHR 0xEF, CHR 0xAC, CHR 0x82], ''FL''),                    \<comment> \<open>U+FB02\<close>
      ([CHR 0xEF, CHR 0xAC, CHR 0x83], ''FFI''),                   \<comment> \<open>U+FB03\<close>
      ([CHR 0xEF, CHR 0xAC, CHR 0x84], ''FFL''),                   \<comment> \<open>U+FB04\<close>
      ([CHR 0xEF, CHR 0xAC, CHR 0x85], ''ST''),                    \<comment> \<open>U+FB05, ligature long s t\<close>
      ([CHR 0xEF, CHR 0xAC, CHR 0x86], ''ST'')]"                   \<comment> \<open>U+FB06, ligature st\<close>

definition special_lower :: "(string \<times> string) list" where
  "special_lower =
     [([CHR 0xC4, CHR 0xB0], [CHR ''i'', CHR 0xCC, CHR 0x87]),     \<comment> \<open>U+0130: i, U+0307\<close>
      ([CHR 0xE2, CHR 0x84, CHR 0xAA], ''k'')]"                    \<comment> \<open>U+212A, Kelvin sign\<close>

fun convert_case :: "(char \<Rightarrow> char) \<Rightarrow> (string \<times> string) list \<Rightarrow> string \<Rightarrow> string" where
  \<comment> \<open>from left to right: a listed character of three or of two bytes, else one byte\<close>
  "convert_case f special (a # b # c # s) =
     (case map_of special [a, b, c] of
        Some v \<Rightarrow> v @ convert_case f special s
      | None \<Rightarrow>
          (case map_of special [a, b] of
             Some v \<Rightarrow> v @ convert_case f special (c # s)
           | None \<Rightarrow> f a # convert_case f special (b # c # s)))"
| "convert_case f special [a, b] =
     (case map_of special [a, b] of
        Some v \<Rightarrow> v
      | None \<Rightarrow> [f a, f b])"
| "convert_case f special [a] = [f a]"
| "convert_case f special [] = []"

declare convert_case.simps [simp del]

definition toUpperCase :: "string \<Rightarrow> string" where
  "toUpperCase s = convert_case upper_char special_upper s"

definition toLowerCase :: "string \<Rightarrow> string" where
  "toLowerCase s = convert_case lower_char special_lower s"

text \<open>
  Equality of two strings up to the case of the ASCII letters, stated without the two
  conversions: the strings have the same length and, position by position, hold the same
  character or the two cases of one ASCII letter.
\<close>

definition same_letter :: "char \<Rightarrow> char \<Rightarrow> bool" where
  "same_letter a b =
     (a = b \<or> (a, b) \<in> set (zip lower_letters upper_letters)
            \<or> (b, a) \<in> set (zip lower_letters upper_letters))"

definition equal_ignoring_case :: "string \<Rightarrow> string \<Rightarrow> bool" where
  "equal_ignoring_case s t = list_all2 same_letter s t"

text \<open>
  What names a currency code up to letter case, again without the conversions. A capital
  letter is written as itself or as its small letter; Unicode has two more small letters
  with an ASCII capital: the long s (U+017F), a small letter of S, and the dotless i
  (U+0131), a small letter of I. A string spells a code when it is, letter by letter, one
  of the forms of the code's letters.
\<close>

definition letter_forms :: "char \<Rightarrow> string list" where
  "letter_forms c =
     [c] # (case map_of (zip upper_letters lower_letters) c of Some l \<Rightarrow> [[l]] | None \<Rightarrow> [])
         @ (if c = CHR ''S'' then [[CHR 0xC5, CHR 0xBF]] else [])
         @ (if c = CHR ''I'' then [[CHR 0xC4, CHR 0xB1]] else [])"

fun spells :: "string \<Rightarrow> string \<Rightarrow> bool" where
  "spells s [] = (s = [])"
| "spells s (c # t) =
     list_ex (\<lambda>form. take (length form) s = form \<and> spells (drop (length form) s) t)
       (letter_forms c)"

fun decimal :: "nat \<Rightarrow> string" where
  \<comment> \<open>the decimal digits of a number, as string concatenation \<open>nonce + clientId\<close> writes it\<close>
  "decimal n = (if n < 10 then [''0123456789'' ! n]
                else decimal (n div 10) @ [''0123456789'' ! (n mod 10)])"

declare decimal.simps [simp del]

section \<open>Constants: lib/constants.js\<close>

definition HOST :: string where "HOST = ''https://www.bitstamp.net''"
definition REQUEST_TIMEOUT :: nat where "REQUEST_TIMEOUT = 5000"
definition TYPE_SELL_ORDER :: string where "TYPE_SELL_ORDER = ''sell''"
definition TYPE_BUY_ORDER :: string where "TYPE_BUY_ORDER = ''buy''"
definition TYPE_DEPOSIT :: int where "TYPE_DEPOSIT = 0"
definition TYPE_WITHDRAWAL :: int where "TYPE_WITHDRAWAL = 1"
definition TYPE_MARKET_TRADE :: int where "TYPE_MARKET_TRADE = 2"

section \<open>Errors\<close>

text \<open>
  The three codes the module reads from \<open>lib/error_codes.js\<close>. That file is not among
  the sources; the codes keep the names the module uses and are taken to be distinct.
\<close>

datatype error_code = EXCHANGE_SERVER_ERROR | MODULE_ERROR | INSUFFICIENT_FUNDS

text \<open>
  What a callback receives as its first argument: a plain string (\<open>Message\<close>), or an
  \<open>Error\<close> object with its message, its \<open>code\<close> property and its \<open>cause\<close>
  property (each \<open>None\<close> when the property was never set).
\<close>

datatype js_error =
    Message string
  | Error (message: string) (code: "error_code option") (cause: "js_error option")

definition truthy :: "js_error option \<Rightarrow> bool" where
  \<comment> \<open>\<open>if (e)\<close>: null, undefined and the empty string are falsy, objects are truthy\<close>
  "truthy e = (case e of None \<Rightarrow> False | Some (Message s) \<Rightarrow> s \<noteq> [] | Some (Error _ _ _) \<Rightarrow> True)"

definition constructError :: "string \<Rightarrow> error_code \<Rightarrow> js_error option \<Rightarrow> js_error" where
  "constructError msg errorCode errorCause =
     Error msg (Some errorCode) (if truthy errorCause then errorCause else None)"

section \<open>Regular expressions of the response interpreter\<close>

datatype char_class =
    Digit     \<comment> \<open>\<open>\d\<close>\<close>
  | UpperAZ   \<comment> \<open>\<open>[A-Z]\<close>\<close>

datatype regex =
    Lit string            \<comment> \<open>a run of literal characters\<close>
  | AnyChar               \<comment> \<open>\<open>.\<close>: any character but a line terminator\<close>
  | One char_class        \<comment> \<open>one character of the class\<close>
  | Many1 char_class      \<comment> \<open>\<open>c+\<close>\<close>
  | Opt regex             \<comment> \<open>\<open>(r)?\<close>\<close>
  | Seq regex regex

definition in_class :: "char_class \<Rightarrow> char \<Rightarrow> bool" where
  "in_class k c = (case k of
       Digit \<Rightarrow> c \<in> set ''0123456789''
     | UpperAZ \<Rightarrow> c \<in> set upper_letters)"

fun many1 :: "char_class \<Rightarrow> string \<Rightarrow> string list" where
  \<comment> \<open>what is left of the string after one or more characters of the class\<close>
  "many1 k [] = []"
| "many1 k (c # cs) = (if in_class k c then cs # many1 k cs else [])"

text \<open>
  The wildcard matches one UTF-16 code unit that is no line terminator (U+000A, U+000D,
  U+2028, U+2029): a character of one, two or three bytes. A character of four bytes is
  two code units, of which the wildcard matches the first: what is left is no string of
  bytes, and nothing but a second wildcard could match it; the patterns of the module
  have no two wildcards in a row, and the model gives no match. The top bits of the first
  byte say how many bytes the character has.
\<close>

fun any_char :: "string \<Rightarrow> string list" where
  "any_char [] = []"
| "any_char (c # cs) =
     (if \<not> digit7 c then (if c = CHR 0x0A \<or> c = CHR 0x0D then [] else [cs])
      else if digit6 c \<and> \<not> digit5 c then [drop 1 cs]
      else if digit6 c \<and> digit5 c \<and> \<not> digit4 c then
        (if c # take 2 cs = [CHR 0xE2, CHR 0x80, CHR 0xA8]
            \<or> c # take 2 cs = [CHR 0xE2, CHR 0x80, CHR 0xA9] then [] else [drop 2 cs])
      else [])"

fun rests :: "regex \<Rightarrow> string \<Rightarrow> string list" where
  \<comment> \<open>every way the expression matches a prefix of the string: what is left after it\<close>
  "rests (Lit w) s = (if take (length w) s = w then [drop (length w) s] else [])"
| "rests AnyChar s = any_char s"
| "rests (One k) s = (case s of [] \<Rightarrow> [] | c # cs \<Rightarrow> if in_class k c then [cs] else [])"
| "rests (Many1 k) s = many1 k s"
| "rests (Opt r) s = rests r s @ [s]"
| "rests (Seq r1 r2) s = concat (map (rests r2) (rests r1 s))"

definition test :: "regex \<Rightarrow> string \<Rightarrow> bool" where
  \<comment> \<open>\<open>/^r$/.test(s)\<close>: the expression matches the whole string\<close>
  "test r s = ([] \<in> set (rests r s))"

fun seqs :: "regex list \<Rightarrow> regex" where
  "seqs [] = Lit []"
| "seqs (r # rs) = Seq r (seqs rs)"

definition amount_pattern :: regex where
  \<comment> \<open>\<open>\d+(\.\d+)?\<close>\<close>
  "amount_pattern = Seq (Many1 Digit) (Opt (Seq (Lit ''.'') (Many1 Digit)))"

definition currency_pattern :: regex where
  \<comment> \<open>\<open>[A-Z]{3}\<close>\<close>
  "currency_pattern = seqs [One UpperAZ, One UpperAZ, One UpperAZ]"

definition REGEX_PATTERN_BUY_ERROR_INSUFFICIENT_FUNDS :: regex where
  "REGEX_PATTERN_BUY_ERROR_INSUFFICIENT_FUNDS = seqs
     [Lit ''You need '', amount_pattern, Lit '' '', currency_pattern,
      Lit '' to open that order'', AnyChar,
      Lit '' You have only '', amount_pattern, Lit '' '', currency_pattern,
      Lit '' available'', AnyChar,
      Lit '' Check your account balance for details'', AnyChar]"

definition REGEX_PATTERN_SELL_ERROR_INSUFFICIENT_FUNDS :: regex where
  "REGEX_PATTERN_SELL_ERROR_INSUFFICIENT_FUNDS = seqs
     [Lit ''You have only '', amount_pattern, Lit '' '', currency_pattern,
      Lit '' available'', AnyChar,
      Lit '' Check your account balance for details'', AnyChar]"

section \<open>The client and its collaborators\<close>

text \<open>
  The settings passed to the constructor. An absent key, secret or client identifier is
  the empty string (\<open>undefined\<close> and \<open>''\<close> are both falsy, and the module only tests
  them for truth); an absent host or timeout is \<open>None\<close>.
\<close>

record settings =
  key :: string
  secret :: string
  clientId :: string
  host :: "string option"
  timeout :: "nat option"

record bitstamp =
  key :: string
  secret :: string
  clientId :: string
  host :: string
  timeout :: nat

definition Bitstamp :: "settings \<Rightarrow> bitstamp" where
  "Bitstamp s = \<lparr> bitstamp.key = settings.key s, secret = settings.secret s,
       clientId = settings.clientId s,
       host = (case settings.host s of Some h \<Rightarrow> if h = [] then HOST else h | None \<Rightarrow> HOST),
       timeout = (case settings.timeout s of Some t \<Rightarrow> if t = 0 then REQUEST_TIMEOUT else t
                   | None \<Rightarrow> REQUEST_TIMEOUT) \<rparr>"

datatype param = PStr string | PInt int | PNum number

record request =
  url :: string
  http_method :: string
  headers :: "(string \<times> string) list"
  timeout :: nat
  form :: "(string \<times> param) list option"

text \<open>
  The \<open>error\<close> member of a parsed response body: \<open>{error: "message"}\<close> or
  \<open>{error: {__all__: [messages...], field: [messages...], ...}}\<close>, the members of the
  object under their names (a parsed object holds each name once).
\<close>

datatype error_payload = ErrorText string | ErrorFields "(string \<times> string list) list"

text \<open>
  A parsed body: its \<open>error\<close> member (\<open>None\<close> when absent) and what the endpoint
  answers, of a type \<open>'a\<close> that each operation fixes.
\<close>

record 'a document =
  error :: "error_payload option"
  content :: 'a

datatype 'a body =
    NoBody                         \<comment> \<open>undefined or the empty string\<close>
  | Unparseable js_error           \<comment> \<open>\<open>JSON.parse\<close> throws this exception\<close>
  | Json "'a document"             \<comment> \<open>\<open>JSON.parse\<close> returns this\<close>

text \<open>What the HTTP library hands to the request callback: \<open>(err, res, body)\<close>.\<close>

record 'a response =
  err :: "js_error option"
  res_error :: "js_error option"
  body :: "'a body"

datatype amount = Text string | Number number

text \<open>
  The collaborators the module calls and the sources do not hold: the clock, the HMAC of
  the crypto library, \<open>JSON.stringify\<close>, \<open>parseFloat\<close>, the \<open>Date\<close> constructor and
  \<open>toISOString\<close>, and the currency converter of \<open>lib/currency.js\<close>. They are
  parameters of the model. \<open>getTime k\<close> is the clock's reading when the call issues its
  request number \<open>k\<close> (counted from 0).
\<close>

record runtime =
  getTime :: "nat \<Rightarrow> nat"
  hmac_sha256_hex :: "string \<Rightarrow> string \<Rightarrow> string"
  stringify :: "error_payload \<Rightarrow> string"
  parseFloat :: "string \<Rightarrow> number"
  Date :: "string option \<Rightarrow> date"
  toISOString :: "date \<Rightarrow> string"
  toSmallestSubunit :: "amount \<Rightarrow> string \<Rightarrow> int"
  fromSmallestSubunit :: "number \<Rightarrow> string \<Rightarrow> number"

type_synonym 'a transport = "request \<Rightarrow> 'a response"

text \<open>
  An operation's outcome: the requests it handed to the HTTP library, in order, and what
  it passed to its callback: \<open>callback(err)\<close> is \<open>Inl err\<close>, with no second argument,
  and \<open>callback(null, result)\<close> is \<open>Inr result\<close>.
\<close>

type_synonym 'a outcome = "request list \<times> (js_error + 'a)"

section \<open>Helper methods\<close>

definition truthy_string :: "string option \<Rightarrow> bool" where
  "truthy_string s = (case s of None \<Rightarrow> False | Some w \<Rightarrow> w \<noteq> [])"

definition truthy_payload :: "error_payload option \<Rightarrow> bool" where
  \<comment> \<open>\<open>if (data.error)\<close>\<close>
  "truthy_payload p = (case p of None \<Rightarrow> False | Some (ErrorText s) \<Rightarrow> s \<noteq> []
                         | Some (ErrorFields _) \<Rightarrow> True)"

definition all_errors :: "error_payload \<Rightarrow> string list option" where
  \<comment> \<open>\<open>data.error['__all__']\<close>\<close>
  "all_errors p = (case p of ErrorText _ \<Rightarrow> None | ErrorFields fs \<Rightarrow> map_of fs ''__all__'')"

definition or_else :: "string option \<Rightarrow> string option \<Rightarrow> string option" where
  \<comment> \<open>\<open>a || b\<close>\<close>
  "or_else a b = (if truthy_string a then a else b)"

definition requestFunction :: "runtime \<Rightarrow> 'a response \<Rightarrow> js_error + 'a" where
  "requestFunction rt r =
     (if truthy (err r) \<or> (case body r of NoBody \<Rightarrow> True | _ \<Rightarrow> False) then
        Inl (constructError ''There is an error in the response from the Bitstamp service...''
               EXCHANGE_SERVER_ERROR (err r))
      else if truthy (res_error r) then
        Inl (constructError ''The exchange service responded with an error...''
               EXCHANGE_SERVER_ERROR (res_error r))
      else case body r of
        Unparseable e \<Rightarrow>
          Inl (constructError ''Could not understand response from exchange server.''
                 MODULE_ERROR (Some e))
      | Json data \<Rightarrow>
          (case error data of
             None \<Rightarrow> Inr (content data)
           | Some payload \<Rightarrow>
               if truthy_payload (Some payload) then
                 (let error = constructError
                        ''There is an error in the body of the response from the exchange service...''
                        EXCHANGE_SERVER_ERROR (Some (Error (stringify rt payload) None None))
                  in Inl (case all_errors payload of
                            None \<Rightarrow> error
                          | Some allErrors \<Rightarrow>
                              (case or_else
                                      (find (test REGEX_PATTERN_BUY_ERROR_INSUFFICIENT_FUNDS) allErrors)
                                      (find (test REGEX_PATTERN_SELL_ERROR_INSUFFICIENT_FUNDS) allErrors)
                               of None \<Rightarrow> error
                                | Some insufficientFundsErrorMessage \<Rightarrow>
                                    if insufficientFundsErrorMessage \<noteq> []
                                    then constructError insufficientFundsErrorMessage
                                           INSUFFICIENT_FUNDS None
                                    else error)))
               else Inr (content data))
      | NoBody \<Rightarrow>
          Inl (constructError ''There is an error in the response from the Bitstamp service...''
                 EXCHANGE_SERVER_ERROR (err r)))"

definition USER_AGENT :: string where
  "USER_AGENT = ''Bitstamp Node.js API Client|(github.com/CoinifySoftware/bitstamp-exc.git)''"

definition Bitstamp_request :: "runtime \<Rightarrow> 'a transport \<Rightarrow> request \<Rightarrow> 'a outcome" where
  "Bitstamp_request rt transport params =
     (let params' = params \<lparr> headers :=
            (''User-Agent'', USER_AGENT) # filter (\<lambda>h. fst h \<noteq> ''User-Agent'') (headers params) \<rparr>
      in if http_method params' = ''GET'' then ([params'], requestFunction rt (transport params'))
         else if http_method params' = ''POST'' then ([params'], requestFunction rt (transport params'))
         else ([], Inl (constructError ''The request must be either POST or GET.'' MODULE_ERROR None)))"

definition Bitstamp_get :: "runtime \<Rightarrow> bitstamp \<Rightarrow> 'a transport \<Rightarrow> string \<Rightarrow> 'a outcome" where
  "Bitstamp_get rt self transport action =
     (let path = ''/api/'' @ action @ ''/'';
          options = \<lparr> url = bitstamp.host self @ path, http_method = ''GET'', headers = [],
                      timeout = bitstamp.timeout self, form = None \<rparr>
      in Bitstamp_request rt transport options)"

definition lodash_extend :: "('k \<times> 'v) list \<Rightarrow> ('k \<times> 'v) list \<Rightarrow> ('k \<times> 'v) list" where
  \<comment> \<open>\<open>_.extend(object, source)\<close>: the members of the source are assigned to the object\<close>
  "lodash_extend object source = foldl (\<lambda>acc (k, v). AList.update k v acc) object source"

text \<open>
  \<open>_post\<close>, called with its three arguments, as every caller in the module calls it (a
  call without \<open>params\<close> is not modelled); \<open>null\<close> parameters are the empty list. \<open>k\<close>
  says which request of the operation this is, for the clock.
\<close>

definition Bitstamp_post ::
  "runtime \<Rightarrow> bitstamp \<Rightarrow> 'a transport \<Rightarrow> nat \<Rightarrow> string \<Rightarrow> (string \<times> param) list \<Rightarrow> 'a outcome" where
  "Bitstamp_post rt self transport k action params =
     (if bitstamp.key self = [] \<or> bitstamp.secret self = [] \<or> bitstamp.clientId self = [] then
        ([], Inl (Message ''Must provide key, secret and client ID to make this API request.''))
      else
        (let path = ''/api/'' @ action @ ''/'';
             nonce = getTime rt k * 10;
             message = decimal nonce @ bitstamp.clientId self @ bitstamp.key self;
             signature = toUpperCase (hmac_sha256_hex rt (bitstamp.secret self) message);
             params' = lodash_extend [(''key'', PStr (bitstamp.key self)), (''signature'', PStr signature),
                               (''nonce'', PInt (int nonce))] params;
             options = \<lparr> url = bitstamp.host self @ path, http_method = ''POST'',
                         headers = [(''Content-Type'', ''application/json'')],
                         timeout = bitstamp.timeout self, form = Some params' \<rparr>
         in Bitstamp_request rt transport options))"

section \<open>Records of the wire format and of the normalized interface\<close>

text \<open>An element of the \<open>user_transactions\<close> answer. \<open>tx_id\<close> is its member \<open>id\<close>.\<close>

record raw_tx =
  tx_id :: int
  datetime :: string
  type :: int
  btc :: string
  usd :: string
  fee :: string
  order_id :: int

record transaction =
  externalId :: string
  timestamp :: string
  state :: string
  amount :: int
  currency :: string
  type :: string
  raw :: raw_tx

text \<open>A fill of an order, an element of \<open>transactions\<close> in the \<open>order_status\<close> answer.\<close>

record fill =
  btc :: string
  usd :: string
  fee :: string
  datetime :: string

text \<open>
  The \<open>order_status\<close> answer. The exchange does not echo the order's \<open>id\<close>
  (\<open>None\<close>); \<open>getTrade\<close> fills it in.
\<close>

record order_status =
  status :: string
  transactions :: "fill list"
  order_status_id :: "int option"

text \<open>What \<open>getTrade\<close> reads of its argument: \<open>trade.raw.id\<close> and \<open>trade.raw.orderType\<close>.\<close>

record trade_ref =
  raw_id :: int
  raw_orderType :: string

record order =
  externalId :: string
  type :: string
  state :: string
  baseAmount :: int
  quoteAmount :: int
  baseCurrency :: string
  quoteCurrency :: string
  feeAmount :: int
  feeCurrency :: string
  raw :: order_status

text \<open>
  What \<open>listTrades\<close> reads of its argument: \<open>latestTrade.raw.transactions\<close> and
  \<open>latestTrade.raw.datetime\<close>, each \<open>None\<close> when the raw object has no such member.
\<close>

record latest_trade =
  raw_transactions :: "fill list option"
  raw_datetime :: "string option"

record market_trade =
  externalId :: string
  type :: string
  state :: string
  baseCurrency :: string
  baseAmount :: int
  quoteCurrency :: string
  quoteAmount :: int
  feeCurrency :: string
  feeAmount :: int
  tradeTime :: date
  raw :: raw_tx

text \<open>The answer to a buy or sell order; \<open>placeTrade\<close> adds the member \<open>orderType\<close>.\<close>

record placed_raw =
  placed_id :: int
  orderType :: "string option"

record placed_trade =
  externalId :: string
  type :: string
  state :: string
  baseAmount :: number
  baseCurrency :: string
  quoteCurrency :: string
  limitPrice :: number
  raw :: placed_raw

text \<open>The \<open>ticker\<close> answer; \<open>last_price\<close> is its member \<open>last\<close>.\<close>

record ticker_raw =
  bid :: string
  ask :: string
  last_price :: string
  high :: string
  low :: string
  vwap :: string
  volume :: string

record ticker =
  baseCurrency :: string
  quoteCurrency :: string
  bid :: number
  ask :: number
  lastPrice :: number
  high24Hours :: number
  low24Hours :: number
  vwap24Hours :: number
  volume24Hours :: int

text \<open>The \<open>order_book\<close> answer: each entry is the array \<open>[price, amount]\<close>.\<close>

record order_book_raw =
  bids :: "(string \<times> string) list option"
  asks :: "(string \<times> string) list option"

record entry =
  price :: number
  baseAmount :: int

record order_book =
  baseCurrency :: string
  quoteCurrency :: string
  bids :: "entry list"
  asks :: "entry list"

record balance_raw =
  usd_available :: string
  btc_available :: string
  usd_balance :: string
  btc_balance :: string

record amounts =
  USD :: int
  BTC :: int

record balance =
  available :: amounts
  total :: amounts

text \<open>An argument of \<open>placeTrade\<close>: \<open>undefined\<close>, a number, or a value of another type.\<close>

datatype argument = Undefined | Numeric number | NonNumeric

definition String :: "int \<Rightarrow> string" where
  \<comment> \<open>\<open>String(i)\<close> and \<open>i.toString()\<close> of an integer\<close>
  "String i = (if i < 0 then ''-'' @ decimal (nat (- i)) else decimal (nat i))"

section \<open>The paginator: iterateRequestTxs\<close>

definition responseLength :: nat where "responseLength = 1000"
definition BITSTAMP_REQUEST_LIMIT :: nat where "BITSTAMP_REQUEST_LIMIT = 100"

text \<open>
  The variables of \<open>iterateRequestTxs\<close> that its closures share, and \<open>issued\<close>, the
  requests handed to the HTTP library so far.
\<close>

record iteration =
  transactionsAll :: "raw_tx list"
  offset :: nat
  continueIteration :: bool
  issued :: "request list"

fun every_tx :: "runtime \<Rightarrow> date \<Rightarrow> raw_tx list \<Rightarrow> raw_tx list \<times> bool \<Rightarrow> raw_tx list \<times> bool" where
  \<comment> \<open>\<open>res.every(function (tx) {...})\<close> on the pair (transactionsAll, continueIteration)\<close>
  "every_tx rt earliestDate [] vars = vars"
| "every_tx rt earliestDate (tx # res) (all, continue) =
     (let currentTxDateTime = Date rt (Some (raw_tx.datetime tx))
      in if date_gt earliestDate currentTxDateTime then (all, False)
         else every_tx rt earliestDate res (all @ [tx], continue))"

definition request_page :: "runtime \<Rightarrow> bitstamp \<Rightarrow> raw_tx list transport \<Rightarrow> nat \<Rightarrow> nat \<Rightarrow> raw_tx list outcome" where
  \<comment> \<open>the call of \<open>self._post\<close> in \<open>post\<close>, as request number \<open>k\<close> and at an offset\<close>
  "request_page rt self transport k off =
     Bitstamp_post rt self transport k ''user_transactions''
       [(''limit'', PInt (int BITSTAMP_REQUEST_LIMIT)), (''offset'', PInt (int off)),
        (''sort'', PStr ''desc'')]"

text \<open>
  The function \<open>post\<close>. An error of \<open>_post\<close> is a non-empty string or an \<open>Error\<close>
  object, so \<open>if (err)\<close> holds exactly when \<open>_post\<close> calls back with an error.
\<close>

definition post :: "runtime \<Rightarrow> bitstamp \<Rightarrow> raw_tx list transport \<Rightarrow> date \<Rightarrow> iteration \<Rightarrow> js_error option \<times> iteration" where
  \<comment> \<open>one iteration: the error passed to \<open>asyncCallback\<close> (\<open>None\<close> for null) and the variables after it\<close>
  "post rt self transport earliestDate v =
     (case request_page rt self transport (length (issued v)) (offset v) of
        (reqs, Inl e) \<Rightarrow> (Some e, v \<lparr> continueIteration := False, issued := issued v @ reqs \<rparr>)
      | (reqs, Inr res) \<Rightarrow>
          (let (all, continue) = every_tx rt earliestDate res (transactionsAll v, continueIteration v);
               continue' = (if length res < BITSTAMP_REQUEST_LIMIT then False else continue)
           in (None, v \<lparr> transactionsAll := all, offset := offset v + responseLength,
                         continueIteration := continue', issued := issued v @ reqs \<rparr>)))"

definition check :: "iteration \<Rightarrow> bool" where
  "check v = continueIteration v"

definition done_cb :: "js_error option \<Rightarrow> raw_tx list \<Rightarrow> js_error + raw_tx list" where
  \<comment> \<open>the function \<open>done\<close>\<close>
  "done_cb e deposits =
     (if truthy e then Inl (constructError ''Trades could not be listed.'' MODULE_ERROR e)
      else Inr deposits)"

text \<open>
  \<open>async.doWhilst(iteratee, test, callback)\<close> of the async library (2.x): run the
  iteratee; when it reports an error, call back with it; otherwise run the test, and
  repeat while it holds. A loop that never ends never calls back: \<open>None\<close>.
\<close>

partial_function (option) doWhilst ::
  "('s \<Rightarrow> js_error option \<times> 's) \<Rightarrow> ('s \<Rightarrow> bool) \<Rightarrow> 's \<Rightarrow> (js_error option \<times> 's) option" where
  "doWhilst iteratee check_fn v =
     (case iteratee v of (e, v') \<Rightarrow>
        if truthy e then Some (e, v')
        else if check_fn v' then doWhilst iteratee check_fn v'
        else Some (None, v'))"

definition iterateRequestTxs ::
  "runtime \<Rightarrow> bitstamp \<Rightarrow> raw_tx list transport \<Rightarrow> date \<Rightarrow> raw_tx list outcome option" where
  "iterateRequestTxs rt self transport earliestDate =
     (case doWhilst (post rt self transport earliestDate) check
             \<lparr> transactionsAll = [], offset = 0, continueIteration = True, issued = [] \<rparr> of
        None \<Rightarrow> None
      | Some (e, v) \<Rightarrow> Some (issued v, done_cb e (transactionsAll v)))"

section \<open>Normalizers and error construction\<close>

definition constructTransactionObject :: "runtime \<Rightarrow> raw_tx \<Rightarrow> transaction" where
  \<comment> \<open>\<open>toISOString\<close> throws a RangeError on the Invalid Date; that is not modelled\<close>
  "constructTransactionObject rt currentTx =
     (let tx = \<lparr> transaction.externalId = String (tx_id currentTx),
                 timestamp = toISOString rt (Date rt (Some (raw_tx.datetime currentTx @ ''+0''))),
                 state = ''completed'',
                 amount = 0,
                 currency = [],
                 type = (if raw_tx.type currentTx = TYPE_DEPOSIT then ''deposit'' else ''withdrawal''),
                 raw = currentTx \<rparr>
      in if is_zero (parseFloat rt (raw_tx.btc currentTx)) then
           tx \<lparr> amount := toSmallestSubunit rt (Number (parseFloat rt (raw_tx.usd currentTx))) ''USD'',
                currency := ''USD'' \<rparr>
         else
           tx \<lparr> amount := toSmallestSubunit rt (Number (parseFloat rt (raw_tx.btc currentTx))) ''BTC'',
                currency := ''BTC'' \<rparr>)"

section \<open>API endpoints exposed methods\<close>

definition UNSUPPORTED_PAIR :: js_error where
  "UNSUPPORTED_PAIR = constructError
     ''Bitstamp only supports BTC and USD as base and quote currencies, respectively.''
     MODULE_ERROR None"

definition getTicker :: "runtime \<Rightarrow> bitstamp \<Rightarrow> ticker_raw transport \<Rightarrow> string \<Rightarrow> string \<Rightarrow> ticker outcome" where
  "getTicker rt self transport baseCurrency0 quoteCurrency0 =
     (let baseCurrency = toUpperCase baseCurrency0;
          quoteCurrency = toUpperCase quoteCurrency0
      in if baseCurrency \<noteq> ''BTC'' \<or> quoteCurrency \<noteq> ''USD'' then ([], Inl UNSUPPORTED_PAIR)
         else case Bitstamp_get rt self transport ''ticker'' of
                (reqs, Inl e) \<Rightarrow> (reqs, Inl e)
              | (reqs, Inr res) \<Rightarrow> (reqs, Inr
                  \<lparr> ticker.baseCurrency = baseCurrency,
                    quoteCurrency = quoteCurrency,
                    bid = parseFloat rt (ticker_raw.bid res),
                    ask = parseFloat rt (ticker_raw.ask res),
                    lastPrice = parseFloat rt (last_price res),
                    high24Hours = parseFloat rt (high res),
                    low24Hours = parseFloat rt (low res),
                    vwap24Hours = parseFloat rt (vwap res),
                    volume24Hours = toSmallestSubunit rt (Number (parseFloat rt (volume res))) baseCurrency \<rparr>))"

definition convertRawEntry :: "runtime \<Rightarrow> string \<times> string \<Rightarrow> entry" where
  "convertRawEntry rt e =
     \<lparr> price = parseFloat rt (fst e),
       entry.baseAmount = toSmallestSubunit rt (Number (parseFloat rt (snd e))) ''BTC'' \<rparr>"

definition getOrderBook :: "runtime \<Rightarrow> bitstamp \<Rightarrow> order_book_raw transport \<Rightarrow> string \<Rightarrow> string \<Rightarrow> order_book outcome" where
  "getOrderBook rt self transport baseCurrency0 quoteCurrency0 =
     (let baseCurrency = toUpperCase baseCurrency0;
          quoteCurrency = toUpperCase quoteCurrency0
      in if baseCurrency \<noteq> ''BTC'' \<or> quoteCurrency \<noteq> ''USD'' then ([], Inl UNSUPPORTED_PAIR)
         else case Bitstamp_get rt self transport ''order_book'' of
                (reqs, Inl e) \<Rightarrow> (reqs, Inl e)
              | (reqs, Inr res) \<Rightarrow>
                  (let rawBids = (case order_book_raw.bids res of Some b \<Rightarrow> b | None \<Rightarrow> []);
                       rawAsks = (case order_book_raw.asks res of Some a \<Rightarrow> a | None \<Rightarrow> [])
                   in (reqs, Inr \<lparr> order_book.baseCurrency = baseCurrency,
                                    quoteCurrency = quoteCurrency,
                                    bids = map (convertRawEntry rt) rawBids,
                                    asks = map (convertRawEntry rt) rawAsks \<rparr>)))"

definition getBalance :: "runtime \<Rightarrow> bitstamp \<Rightarrow> balance_raw transport \<Rightarrow> balance outcome" where
  "getBalance rt self transport =
     (case Bitstamp_post rt self transport 0 ''balance'' [] of
        (reqs, Inl e) \<Rightarrow> (reqs, Inl e)
      | (reqs, Inr res) \<Rightarrow> (reqs, Inr
          \<lparr> available = \<lparr> USD = toSmallestSubunit rt (Text (usd_available res)) ''USD'',
                          BTC = toSmallestSubunit rt (Text (btc_available res)) ''BTC'' \<rparr>,
            total = \<lparr> USD = toSmallestSubunit rt (Text (usd_balance res)) ''USD'',
                      BTC = toSmallestSubunit rt (Text (btc_balance res)) ''BTC'' \<rparr> \<rparr>))"

definition getTrade :: "runtime \<Rightarrow> bitstamp \<Rightarrow> order_status transport \<Rightarrow> trade_ref option \<Rightarrow> order outcome" where
  "getTrade rt self transport trade0 =
     (case trade0 of
        None \<Rightarrow> ([], Inl (constructError ''Trade object is a required parameter.'' MODULE_ERROR None))
      | Some trade \<Rightarrow>
          if raw_orderType trade \<noteq> TYPE_SELL_ORDER \<and> raw_orderType trade \<noteq> TYPE_BUY_ORDER then
            ([], Inl (constructError
               ''Trade object must have a raw orderType parameter with value either 'sell' or 'buy'.''
               MODULE_ERROR None))
          else (case Bitstamp_post rt self transport 0 ''order_status'' [(''id'', PInt (raw_id trade))] of
            (reqs, Inl e) \<Rightarrow> (reqs, Inl e)
          | (reqs, Inr res0) \<Rightarrow>
              (let res = (case order_status_id res0 of
                            None \<Rightarrow> res0 \<lparr> order_status_id := Some (raw_id trade) \<rparr>
                          | Some _ \<Rightarrow> res0);
                   baseAmounts = map (\<lambda>tx.
                       let baseAmount = toSmallestSubunit rt (Text (fill.btc tx)) ''BTC''
                       in if raw_orderType trade = TYPE_SELL_ORDER then - baseAmount else baseAmount)
                     (transactions res);
                   quoteAmounts = map (\<lambda>tx.
                       let quoteAmount = toSmallestSubunit rt (Text (fill.usd tx)) ''USD''
                       in if raw_orderType trade = TYPE_BUY_ORDER then - quoteAmount else quoteAmount)
                     (transactions res);
                   feeAmounts = map (\<lambda>tx. toSmallestSubunit rt (Text (fill.fee tx)) ''USD'')
                     (transactions res)
               in (reqs, Inr
                    \<lparr> order.externalId = String (raw_id trade),
                      type = ''limit'',
                      state = (if toLowerCase (status res) = ''finished'' then ''closed'' else ''open''),
                      baseAmount = sum_list baseAmounts,
                      quoteAmount = sum_list quoteAmounts,
                      baseCurrency = ''BTC'',
                      quoteCurrency = ''USD'',
                      feeAmount = sum_list feeAmounts,
                      feeCurrency = ''USD'',
                      raw = res \<rparr>))))"

definition latestTxDate_of_transaction :: "runtime \<Rightarrow> transaction option \<Rightarrow> date" where
  \<comment> \<open>the variable \<open>latestTxDate\<close> of \<open>listTransactions\<close>; \<open>new Date(0)\<close> is the epoch\<close>
  "latestTxDate_of_transaction rt latestTransaction =
     (case latestTransaction of
        Some t \<Rightarrow> Date rt (Some (raw_tx.datetime (transaction.raw t)))
      | None \<Rightarrow> Some 0)"

definition listTransactions ::
  "runtime \<Rightarrow> bitstamp \<Rightarrow> raw_tx list transport \<Rightarrow> transaction option \<Rightarrow> transaction list outcome option" where
  "listTransactions rt self transport latestTransaction =
     (let latestTxDate = latestTxDate_of_transaction rt latestTransaction
      in case iterateRequestTxs rt self transport latestTxDate of
           None \<Rightarrow> None
         | Some (reqs, Inl e) \<Rightarrow> Some (reqs, Inl e)
         | Some (reqs, Inr transactions0) \<Rightarrow>
             (let transactions1 = filter (\<lambda>tx. raw_tx.type tx = TYPE_DEPOSIT \<or> raw_tx.type tx = TYPE_WITHDRAWAL)
                                         transactions0
              in Some (reqs, Inr (map (constructTransactionObject rt) transactions1))))"

definition TypeError :: js_error where
  \<comment> \<open>the exception of reading a member of \<open>undefined\<close>, with the message of V8\<close>
  "TypeError = Error ''Cannot read property 'datetime' of undefined'' None None"

definition latestTxDate_of_trade :: "runtime \<Rightarrow> latest_trade option \<Rightarrow> js_error + date" where
  \<comment> \<open>the variable \<open>latestTxDate\<close> of \<open>listTrades\<close>; reading \<open>raw.transactions[0].datetime\<close>
      of an empty array throws\<close>
  "latestTxDate_of_trade rt latestTrade =
     (case latestTrade of
        None \<Rightarrow> Inr (Some 0)
      | Some t \<Rightarrow>
          (case raw_transactions t of
             Some [] \<Rightarrow> Inl TypeError
           | Some (f # _) \<Rightarrow> Inr (Date rt (Some (fill.datetime f)))
           | None \<Rightarrow> Inr (Date rt (raw_datetime t))))"

text \<open>
  \<open>listTrades\<close> returns a promise: \<open>Inr\<close> of what the promise settles with (a rejection
  is \<open>Inl\<close> there). An exception thrown while \<open>latestTxDate\<close> is computed leaves the
  function before any promise exists: the outer \<open>Inl\<close>.
\<close>

definition listTrades ::
  "runtime \<Rightarrow> bitstamp \<Rightarrow> raw_tx list transport \<Rightarrow> latest_trade option
     \<Rightarrow> js_error + market_trade list outcome option" where
  "listTrades rt self transport latestTrade =
     (case latestTxDate_of_trade rt latestTrade of
        Inl thrown \<Rightarrow> Inl thrown
      | Inr latestTxDate \<Rightarrow> Inr
          (case iterateRequestTxs rt self transport latestTxDate of
             None \<Rightarrow> None
           | Some (reqs, Inl e) \<Rightarrow> Some (reqs, Inl e)
           | Some (reqs, Inr transactions0) \<Rightarrow>
               (let transactions1 = filter (\<lambda>tx. raw_tx.type tx = TYPE_MARKET_TRADE) transactions0
                in Some (reqs, Inr (map (\<lambda>tx.
                     \<lparr> market_trade.externalId = String (order_id tx),
                       type = ''limit'',
                       state = ''closed'',
                       baseCurrency = ''BTC'',
                       baseAmount = toSmallestSubunit rt (Number (parseFloat rt (raw_tx.btc tx))) ''BTC'',
                       quoteCurrency = ''USD'',
                       quoteAmount = toSmallestSubunit rt (Number (parseFloat rt (raw_tx.usd tx))) ''USD'',
                       feeCurrency = ''USD'',
                       feeAmount = toSmallestSubunit rt (Number (parseFloat rt (raw_tx.fee tx))) ''USD'',
                       tradeTime = Date rt (Some (raw_tx.datetime tx)),
                       raw = tx \<rparr>) transactions1)))))"

definition placeTrade ::
  "runtime \<Rightarrow> bitstamp \<Rightarrow> placed_raw transport \<Rightarrow> argument \<Rightarrow> argument \<Rightarrow> string \<Rightarrow> string
     \<Rightarrow> placed_trade outcome" where
  "placeTrade rt self transport baseAmount0 limitPrice0 baseCurrency0 quoteCurrency0 =
     (let baseCurrency = toUpperCase baseCurrency0;
          quoteCurrency = toUpperCase quoteCurrency0
      in if baseCurrency \<noteq> ''BTC'' \<or> quoteCurrency \<noteq> ''USD'' then
           ([], Inl (constructError ''Base and Quote currencies should be BTC and USD, respectively''
                       MODULE_ERROR None))
         else (case baseAmount0 of
           Undefined \<Rightarrow> ([], Inl (constructError ''The base amount must be a number.'' MODULE_ERROR None))
         | NonNumeric \<Rightarrow> ([], Inl (constructError ''The base amount must be a number.'' MODULE_ERROR None))
         | Numeric baseAmount' \<Rightarrow>
             if is_zero baseAmount' then
               ([], Inl (constructError ''The base amount must be a number.'' MODULE_ERROR None))
             else (case limitPrice0 of
               Undefined \<Rightarrow>
                 ([], Inl (constructError ''The limit price must be a positive number.'' MODULE_ERROR None))
             | NonNumeric \<Rightarrow>
                 ([], Inl (constructError ''The limit price must be a positive number.'' MODULE_ERROR None))
             | Numeric limitPrice' \<Rightarrow>
                 if less_zero limitPrice' then
                   ([], Inl (constructError ''The limit price must be a positive number.'' MODULE_ERROR None))
                 else
                   (let orderType = (if less_zero baseAmount' then TYPE_SELL_ORDER else TYPE_BUY_ORDER);
                        amountSubUnit = (if orderType = TYPE_SELL_ORDER then negate baseAmount' else baseAmount');
                        amountMainUnit = fromSmallestSubunit rt amountSubUnit ''BTC''
                    in (case Bitstamp_post rt self transport 0 orderType
                              [(''amount'', PNum amountMainUnit), (''price'', PNum limitPrice')] of
                         (reqs, Inl e) \<Rightarrow> (reqs, Inl e)
                       | (reqs, Inr res) \<Rightarrow> (reqs, Inr
                           \<lparr> placed_trade.externalId = String (placed_id res),
                             type = ''limit'',
                             state = ''open'',
                             baseAmount = baseAmount',
                             baseCurrency = ''BTC'',
                             quoteCurrency = ''USD'',
                             limitPrice = limitPrice',
                             raw = res \<lparr> orderType := Some orderType \<rparr> \<rparr>))))))"


section \<open>A run time and exchanges for the examples\<close>

text \<open>
  The examples run the model on a concrete run time. Its \<open>parseFloat\<close> and its converter
  read unsigned decimal texts such as \<open>0.50000000\<close>; a \<open>BTC\<close> has 100000000 subunits and
  a \<open>USD\<close> 100. Its \<open>Date\<close> reads the digits of a stamp and skips everything else, so
  that a later \<open>YYYY-MM-DD HH:MM:SS.mmmm\<close> stamp is a larger time value.
\<close>

definition digit_value :: "char \<Rightarrow> nat option" where
  "digit_value c = map_of
     [(CHR ''0'', 0), (CHR ''1'', 1), (CHR ''2'', 2), (CHR ''3'', 3), (CHR ''4'', 4),
      (CHR ''5'', 5), (CHR ''6'', 6), (CHR ''7'', 7), (CHR ''8'', 8), (CHR ''9'', 9)] c"

fun digits_from :: "nat \<Rightarrow> string \<Rightarrow> nat" where
  "digits_from n [] = n"
| "digits_from n (c # cs) =
     digits_from (case digit_value c of Some d \<Rightarrow> 10 * n + d | None \<Rightarrow> n) cs"

definition digits_value :: "string \<Rightarrow> nat" where
  "digits_value s = digits_from 0 s"

definition fraction_digits :: "string \<Rightarrow> nat" where
  \<comment> \<open>how many characters follow the last point\<close>
  "fraction_digits s =
     (if CHR ''.'' \<in> set s then length (takeWhile (\<lambda>c. c \<noteq> CHR ''.'') (rev s)) else 0)"

definition parse_decimal :: "string \<Rightarrow> rat" where
  "parse_decimal s = of_nat (digits_value s) / 10 ^ fraction_digits s"

definition subunits :: "string \<Rightarrow> rat" where
  "subunits c = (if c = ''BTC'' then 100000000 else 100)"

definition example_runtime :: runtime where
  "example_runtime =
     \<lparr> getTime = (\<lambda>k. 1500000000000 + k),
       hmac_sha256_hex = (\<lambda>secret_key msg. ''0f''),
       stringify = (\<lambda>p. ''{}''),
       parseFloat = (\<lambda>s. Finite (parse_decimal s)),
       Date = (\<lambda>s. case s of None \<Rightarrow> None | Some w \<Rightarrow> Some (int (digits_value w))),
       toISOString = (\<lambda>d. case d of None \<Rightarrow> [] | Some t \<Rightarrow> decimal (nat t)),
       toSmallestSubunit = (\<lambda>a c. case a of Text w \<Rightarrow> \<lfloor>parse_decimal w * subunits c\<rfloor>
                                        | Number (Finite r) \<Rightarrow> \<lfloor>r * subunits c\<rfloor> | Number _ \<Rightarrow> 0),
       fromSmallestSubunit = (\<lambda>n c. case n of Finite r \<Rightarrow> Finite (r / subunits c) | _ \<Rightarrow> n) \<rparr>"

definition example_client :: bitstamp where
  "example_client = Bitstamp \<lparr> settings.key = ''k'', secret = ''s'', clientId = ''c'',
                               host = None, timeout = None \<rparr>"

definition anonymous_client :: bitstamp where
  \<comment> \<open>a client built without credentials\<close>
  "anonymous_client = Bitstamp \<lparr> settings.key = [], secret = [], clientId = [],
                                 host = None, timeout = None \<rparr>"

definition answering :: "'a \<Rightarrow> 'a transport" where
  \<comment> \<open>an exchange that answers every request with the same body\<close>
  "answering a = (\<lambda>req. \<lparr> err = None, res_error = None, body = Json \<lparr> error = None, content = a \<rparr> \<rparr>)"

definition refusing :: "error_payload \<Rightarrow> 'a \<Rightarrow> 'a transport" where
  \<comment> \<open>an exchange that answers every request with an error body\<close>
  "refusing p a = (\<lambda>req. \<lparr> err = None, res_error = None, body = Json \<lparr> error = Some p, content = a \<rparr> \<rparr>)"

definition unreachable :: "js_error \<Rightarrow> 'a transport" where
  \<comment> \<open>a network that fails every request\<close>
  "unreachable e = (\<lambda>req. \<lparr> err = Some e, res_error = None, body = NoBody \<rparr>)"

definition nat_param :: "request \<Rightarrow> string \<Rightarrow> nat" where
  "nat_param req name =
     (case form req of None \<Rightarrow> 0
      | Some ps \<Rightarrow> (case map_of ps name of Some (PInt i) \<Rightarrow> nat i | _ \<Rightarrow> 0))"

definition serving :: "raw_tx list \<Rightarrow> raw_tx list transport" where
  \<comment> \<open>an exchange that holds a history, newest first, and answers \<open>limit\<close> and \<open>offset\<close>\<close>
  "serving history =
     (\<lambda>req. \<lparr> err = None, res_error = None,
              body = Json \<lparr> error = None,
                            content = take (nat_param req ''limit'') (drop (nat_param req ''offset'') history) \<rparr> \<rparr>)"

definition deposit_at :: "nat \<Rightarrow> raw_tx" where
  \<comment> \<open>a deposit of 1 BTC, \<open>n\<close> milliseconds into 1 January 2016\<close>
  "deposit_at n = \<lparr> tx_id = int n, datetime = ''2016-01-01 00:00:00.'' @ decimal (1000 + n),
                    type = TYPE_DEPOSIT, btc = ''1.00000000'', usd = ''0.00'', fee = ''0.00'',
                    order_id = 0 \<rparr>"

definition history :: "nat \<Rightarrow> raw_tx list" where
  \<comment> \<open>\<open>n\<close> deposits, newest first\<close>
  "history n = map deposit_at (rev [0..<n])"

definition usd_deposit :: raw_tx where
  \<comment> \<open>a deposit of 12.50 USD\<close>
  "usd_deposit = deposit_at 1 \<lparr> raw_tx.btc := ''0.00000000'', raw_tx.usd := ''12.50'' \<rparr>"

definition two_fills :: order_status where
  \<comment> \<open>a finished order of 2 BTC, executed in two fills\<close>
  "two_fills = \<lparr> status = ''Finished'',
       transactions = [\<lparr> fill.btc = ''1.50000000'', usd = ''558.95'', fee = ''0.09'',
                          datetime = ''2016-01-01 10:00:00'' \<rparr>,
                       \<lparr> fill.btc = ''0.50000000'', usd = ''186.31'', fee = ''0.02'',
                          datetime = ''2016-01-01 09:00:00'' \<rparr>],
       order_status_id = None \<rparr>"

definition no_funds_to_sell :: string where
  "no_funds_to_sell =
     ''You have only 0.00000000 BTC available. Check your account balance for details.''"

definition no_funds_to_buy :: string where
  "no_funds_to_buy = ''You need 12.5 USD to open that order. You have only 3 USD available. Check your account balance for details.''"

definition example_ticker :: ticker_raw where
  "example_ticker = \<lparr> ticker_raw.bid = ''649.89'', ask = ''650.12'', last_price = ''649.97'',
                       high = ''652.55'', low = ''634.98'', vwap = ''647.37'',
                       volume = ''12.34567890'' \<rparr>"

definition example_book :: order_book_raw where
  "example_book = \<lparr> order_book_raw.bids = Some [(''450.31'', ''0.33445566'')],
                     asks = Some [(''450.65'', ''0.44556677'')] \<rparr>"

definition example_balance :: balance_raw where
  "example_balance = \<lparr> usd_available = ''10.00'', btc_available = ''1.00000000'',
                        usd_balance = ''12.00'', btc_balance = ''2.00000000'' \<rparr>"

definition example_placed :: placed_raw where
  "example_placed = \<lparr> placed_id = 7, orderType = None \<rparr>"

definition ETIMEDOUT :: js_error where
  \<comment> \<open>the exception of the HTTP library when a request times out\<close>
  "ETIMEDOUT = Error ''ETIMEDOUT'' None None"

definition failing_from :: "nat \<Rightarrow> js_error \<Rightarrow> raw_tx list \<Rightarrow> raw_tx list transport" where
  \<comment> \<open>the serving exchange, behind a network that fails every request at or past an offset\<close>
  "failing_from bound e txs =
     (\<lambda>req. if nat_param req ''offset'' < bound then serving txs req else unreachable e req)"

section \<open>The original cause of a failed exchange\<close>

text \<open>
  What the spec calls the original cause of an error, for one exchange with the server: the
  network exception if there is one; else, when a body arrived, the response's own error;
  else the exception of the parser; else the error payload of the parsed body, held as
  text by an \<open>Error\<close>.
\<close>

definition original_cause :: "runtime \<Rightarrow> 'a response \<Rightarrow> js_error option" where
  "original_cause rt r =
     (if truthy (err r) then err r
      else case body r of
        NoBody \<Rightarrow> None
      | Unparseable x \<Rightarrow> if truthy (res_error r) then res_error r
                         else if truthy (Some x) then Some x else None
      | Json d \<Rightarrow> if truthy (res_error r) then res_error r
                  else (case error d of
                          Some p \<Rightarrow> Some (Error (stringify rt p) None None)
                        | None \<Rightarrow> None))"

definition coded :: "js_error \<Rightarrow> bool" where
  \<comment> \<open>an \<open>Error\<close> object that carries a code (and, as every \<open>Error\<close>, a message)\<close>
  "coded e = (case e of Message _ \<Rightarrow> False | Error _ c _ \<Rightarrow> c \<noteq> None)"

definition has_credentials :: "bitstamp \<Rightarrow> bool" where
  "has_credentials self =
     (bitstamp.key self \<noteq> [] \<and> bitstamp.secret self \<noteq> [] \<and> bitstamp.clientId self \<noteq> [])"

section \<open>Letter case\<close>

lemma distinct_lower_letters: "distinct lower_letters"
  by (simp add: lower_letters_def)

lemma distinct_upper_letters: "distinct upper_letters"
  by (simp add: upper_letters_def)

lemma length_letters: "length lower_letters = length upper_letters"
  by (simp add: lower_letters_def upper_letters_def)

lemma letters_disjoint: "set lower_letters \<inter> set upper_letters = {}"
  by (simp add: lower_letters_def upper_letters_def)

lemma upper_letters_ascii: "x \<in> set upper_letters \<Longrightarrow> \<not> digit7 x"
  by (auto simp: upper_letters_def)

lemma lower_letters_ascii: "x \<in> set lower_letters \<Longrightarrow> \<not> digit7 x"
  by (auto simp: lower_letters_def)

lemma convert_char_eq:
  assumes "distinct ks" and "length ks = length vs" and "b \<in> set vs" and "set ks \<inter> set vs = {}"
  shows "(case map_of (zip ks vs) a of Some u \<Rightarrow> u | None \<Rightarrow> a) = b
           \<longleftrightarrow> a = b \<or> (a, b) \<in> set (zip ks vs)"
proof (cases "map_of (zip ks vs) a")
  case None
  with assms(2) have "a \<notin> set ks" by simp
  then have "(a, b) \<notin> set (zip ks vs)" by (auto dest: set_zip_leftD)
  with None show ?thesis by simp
next
  case (Some u)
  from assms(1,2) have d: "distinct (map fst (zip ks vs))" by simp
  from Some have "(a, u) \<in> set (zip ks vs)" by (rule map_of_SomeD)
  then have "a \<in> set ks" by (rule set_zip_leftD)
  with assms(3,4) have "a \<noteq> b" by auto
  moreover have "(a, b) \<in> set (zip ks vs) \<longleftrightarrow> u = b"
    using Some map_of_eq_Some_iff [OF d, of a b] by auto
  ultimately show ?thesis using Some by auto
qed

lemma upper_char_eq:
  assumes "b \<in> set upper_letters"
  shows "upper_char a = b \<longleftrightarrow> same_letter a b"
proof -
  have "(b, a) \<notin> set (zip lower_letters upper_letters)"
    using assms letters_disjoint by (auto dest: set_zip_leftD)
  then show ?thesis
    unfolding upper_char_def same_letter_def
    using convert_char_eq [OF distinct_lower_letters length_letters assms letters_disjoint, of a]
    by simp
qed

lemma lower_char_eq:
  assumes "b \<in> set lower_letters"
  shows "lower_char a = b \<longleftrightarrow> same_letter a b"
proof -
  have "(a, b) \<notin> set (zip lower_letters upper_letters)"
    using assms letters_disjoint by (auto dest: set_zip_rightD)
  moreover have "(a, b) \<in> set (zip upper_letters lower_letters)
                   \<longleftrightarrow> (b, a) \<in> set (zip lower_letters upper_letters)"
    by (auto simp: in_set_zip)
  moreover have "set upper_letters \<inter> set lower_letters = {}"
    using letters_disjoint by auto
  ultimately show ?thesis
    unfolding lower_char_def same_letter_def
    using convert_char_eq [OF distinct_upper_letters length_letters [symmetric] assms, of a]
    by simp
qed

lemma map_upper_char_eq:
  "set t \<subseteq> set upper_letters \<Longrightarrow> map upper_char s = t \<longleftrightarrow> equal_ignoring_case s t"
proof (induction s arbitrary: t)
  case Nil
  then show ?case by (auto simp: equal_ignoring_case_def)
next
  case (Cons a s)
  show ?case
  proof (cases t)
    case Nil
    then show ?thesis by (simp add: equal_ignoring_case_def)
  next
    case (Cons b t')
    with Cons.prems have b: "b \<in> set upper_letters" and t': "set t' \<subseteq> set upper_letters"
      by auto
    from Cons.IH [OF t'] upper_char_eq [OF b, of a] Cons show ?thesis
      by (simp add: equal_ignoring_case_def)
  qed
qed

lemma map_lower_char_eq:
  "set t \<subseteq> set lower_letters \<Longrightarrow> map lower_char s = t \<longleftrightarrow> equal_ignoring_case s t"
proof (induction s arbitrary: t)
  case Nil
  then show ?case by (auto simp: equal_ignoring_case_def)
next
  case (Cons a s)
  show ?case
  proof (cases t)
    case Nil
    then show ?thesis by (simp add: equal_ignoring_case_def)
  next
    case (Cons b t')
    with Cons.prems have b: "b \<in> set lower_letters" and t': "set t' \<subseteq> set lower_letters"
      by auto
    from Cons.IH [OF t'] lower_char_eq [OF b, of a] Cons show ?thesis
      by (simp add: equal_ignoring_case_def)
  qed
qed

subsection \<open>The conversion, character by character\<close>

lemma convert_case_Nil: "convert_case f sp [] = []"
  by (simp add: convert_case.simps)

lemma convert_case_plain:
  assumes "\<And>k v. map_of sp k = Some v \<Longrightarrow> hd k \<noteq> a"
  shows "convert_case f sp (a # s) = f a # convert_case f sp s"
proof -
  have n: "map_of sp (a # r) = None" for r
    using assms [of "a # r"] by (cases "map_of sp (a # r)") auto
  show ?thesis
  proof (cases s)
    case Nil
    then show ?thesis by (simp add: convert_case.simps)
  next
    case outer: (Cons b s1)
    show ?thesis
    proof (cases s1)
      case Nil
      with outer show ?thesis by (simp add: convert_case.simps n)
    next
      case (Cons c s2)
      with outer show ?thesis by (simp add: convert_case.simps n)
    qed
  qed
qed

lemma convert_case_special:
  assumes "map_of sp k = Some v"
    and "length k = 3 \<or> length k = 2 \<and> (\<forall>c. map_of sp (k @ [c]) = None)"
  shows "convert_case f sp (k @ s) = v @ convert_case f sp s"
proof -
  from assms(2) consider
      a b c where "k = [a, b, c]"
    | a b where "k = [a, b]" "\<And>c. map_of sp [a, b, c] = None"
    by (cases k; cases "tl k"; cases "tl (tl k)"; cases "tl (tl (tl k))") auto
  then show ?thesis
  proof cases
    case 1
    with assms(1) show ?thesis by (simp add: convert_case.simps)
  next
    case 2
    with assms(1) show ?thesis by (cases s) (simp_all add: convert_case.simps)
  qed
qed

lemma convert_case_cases:
  obtains (empty) "s = []"
  | (special) k v s' where "map_of sp k = Some v" and "s = k @ s'"
      and "convert_case f sp s = v @ convert_case f sp s'" and "k \<noteq> []"
  | (plain) a s' where "s = a # s'" and "convert_case f sp s = f a # convert_case f sp s'"
proof (cases s)
  case Nil
  then show ?thesis by (rule empty)
next
  case s: (Cons a s1)
  show ?thesis
  proof (cases s1)
    case Nil
    with s show ?thesis by (intro plain [of a "[]"]) (simp_all add: convert_case.simps)
  next
    case s1: (Cons b s2)
    show ?thesis
    proof (cases s2)
      case Nil
      show ?thesis
      proof (cases "map_of sp [a, b]")
        case None
        with s s1 Nil show ?thesis
          by (intro plain [of a "[b]"]) (simp_all add: convert_case.simps)
      next
        case (Some v)
        with s s1 Nil show ?thesis
          by (intro special [of "[a, b]" v "[]"]) (simp_all add: convert_case.simps)
      qed
    next
      case s2: (Cons c s3)
      show ?thesis
      proof (cases "map_of sp [a, b, c]")
        case (Some v)
        with s s1 s2 show ?thesis
          by (intro special [of "[a, b, c]" v s3]) (simp_all add: convert_case.simps)
      next
        case three: None
        show ?thesis
        proof (cases "map_of sp [a, b]")
          case None
          with s s1 s2 three show ?thesis
            by (intro plain [of a "b # c # s3"]) (simp_all add: convert_case.simps)
        next
          case (Some v)
          with s s1 s2 three show ?thesis
            by (intro special [of "[a, b]" v "c # s3"]) (simp_all add: convert_case.simps)
        qed
      qed
    qed
  qed
qed

lemma convert_case_eq_map:
  assumes sp: "\<And>k v. map_of sp k = Some v \<Longrightarrow> \<not> set v \<subseteq> T \<and> f (hd k) \<notin> T"
    and t: "set t \<subseteq> T"
  shows "convert_case f sp s = t \<longleftrightarrow> map f s = t"
  using t
proof (induction s arbitrary: t rule: length_induct)
  case (1 s)
  show ?case
  proof (cases s rule: convert_case_cases [where sp = sp and f = f])
    case empty
    then show ?thesis by (simp add: convert_case_Nil)
  next
    case (special k v s')
    from sp [OF special(1)] have v: "\<not> set v \<subseteq> T" and k: "f (hd k) \<notin> T" by auto
    from v "1.prems" have "v @ convert_case f sp s' \<noteq> t" by auto
    moreover have "map f (k @ s') \<noteq> t"
      using k "1.prems" special(4) by (cases k) auto
    ultimately show ?thesis using special by auto
  next
    case (plain a s')
    show ?thesis
    proof (cases t)
      case Nil
      with plain show ?thesis by simp
    next
      case (Cons b t')
      with "1.prems" have "set t' \<subseteq> T" by auto
      with "1.IH" plain have "convert_case f sp s' = t' \<longleftrightarrow> map f s' = t'" by simp
      with plain Cons show ?thesis by simp
    qed
  qed
qed

subsection \<open>Lower case\<close>

lemma toLowerCase_finished: "toLowerCase s = ''finished'' \<longleftrightarrow> equal_ignoring_case s ''finished''"
proof -
  have "toLowerCase s = ''finished'' \<longleftrightarrow> map lower_char s = ''finished''"
    unfolding toLowerCase_def
  proof (rule convert_case_eq_map [where T = "set ''finished''"])
    fix k v
    assume "map_of special_lower k = Some v"
    then show "\<not> set v \<subseteq> set ''finished'' \<and> lower_char (hd k) \<notin> set ''finished''"
      by (auto simp: special_lower_def lower_char_def upper_letters_def lower_letters_def
          split: if_splits)
  qed simp
  also have "\<dots> \<longleftrightarrow> equal_ignoring_case s ''finished''"
    by (rule map_lower_char_eq) (simp add: lower_letters_def)
  finally show ?thesis .
qed

subsection \<open>Upper case\<close>

lemma special_upper_keys:
  assumes "map_of special_upper k = Some v"
  shows "digit7 (hd k)" and "v \<noteq> []"
    and "length k = 3 \<or> length k = 2 \<and> (\<forall>c. map_of special_upper (k @ [c]) = None)"
  using assms by (auto simp: special_upper_def split: if_splits)

lemma toUpperCase_Nil: "toUpperCase [] = []"
  by (simp add: toUpperCase_def convert_case_Nil)

lemma toUpperCase_ascii: "\<not> digit7 a \<Longrightarrow> toUpperCase (a # s) = upper_char a # toUpperCase s"
  unfolding toUpperCase_def by (rule convert_case_plain) (auto dest: special_upper_keys(1))

lemma toUpperCase_special:
  "map_of special_upper k = Some v \<Longrightarrow> toUpperCase (k @ s) = v @ toUpperCase s"
  unfolding toUpperCase_def by (rule convert_case_special) (auto dest: special_upper_keys(3))

lemma toUpperCase_Nil_iff: "toUpperCase s = [] \<longleftrightarrow> s = []"
proof (cases s rule: convert_case_cases [where sp = special_upper and f = upper_char])
  case empty
  then show ?thesis by (simp add: toUpperCase_Nil)
next
  case (special k v s')
  with special_upper_keys(2) [OF special(1)] show ?thesis by (simp add: toUpperCase_def)
next
  case (plain a s')
  then show ?thesis by (simp add: toUpperCase_def)
qed

lemma upper_char_upper: "x \<in> set upper_letters \<Longrightarrow> upper_char x = x"
  by (simp add: upper_char_eq same_letter_def)

lemma letter_forms_small:
  assumes "x \<in> set upper_letters"
  shows "map_of (zip upper_letters lower_letters) x = Some l
           \<longleftrightarrow> (l, x) \<in> set (zip lower_letters upper_letters)"
proof -
  have d: "distinct (map fst (zip upper_letters lower_letters))"
    using distinct_upper_letters length_letters by simp
  have "(l, x) \<in> set (zip lower_letters upper_letters)
          \<longleftrightarrow> (x, l) \<in> set (zip upper_letters lower_letters)"
    by (auto simp: in_set_zip)
  with map_of_eq_Some_iff [OF d, of x l] show ?thesis by simp
qed

lemma upper_char_letter_forms:
  assumes x: "x \<in> set upper_letters" and a: "upper_char a = x"
  shows "[a] \<in> set (letter_forms x)"
proof -
  from a upper_char_eq [OF x, of a] have "same_letter a x" by simp
  moreover have "(x, a) \<notin> set (zip lower_letters upper_letters)"
    using x letters_disjoint by (auto dest: set_zip_leftD)
  ultimately have "a = x \<or> (a, x) \<in> set (zip lower_letters upper_letters)"
    by (auto simp: same_letter_def)
  then show ?thesis
    using letter_forms_small [OF x, of a] by (auto simp: letter_forms_def)
qed

lemma special_letter_forms:
  "map_of special_upper k = Some [x] \<Longrightarrow> k \<in> set (letter_forms x)"
  by (auto simp: special_upper_def letter_forms_def split: if_splits)

lemma toUpperCase_letter_forms:
  assumes x: "x \<in> set upper_letters" and f: "w \<in> set (letter_forms x)"
  shows "toUpperCase (w @ r) = x # toUpperCase r"
proof -
  from f consider "w = [x]"
    | l where "w = [l]" "map_of (zip upper_letters lower_letters) x = Some l"
    | "w = [CHR 0xC5, CHR 0xBF]" "x = CHR ''S''"
    | "w = [CHR 0xC4, CHR 0xB1]" "x = CHR ''I''"
    by (auto simp: letter_forms_def split: option.splits if_splits)
  then show ?thesis
  proof cases
    case 1
    with x show ?thesis by (simp add: toUpperCase_ascii upper_letters_ascii upper_char_upper)
  next
    case 2
    with letter_forms_small [OF x, of l] have z: "(l, x) \<in> set (zip lower_letters upper_letters)"
      by simp
    then have "l \<in> set lower_letters" by (rule set_zip_leftD)
    moreover from z have "upper_char l = x" by (simp add: upper_char_eq [OF x] same_letter_def)
    ultimately show ?thesis using 2 by (simp add: toUpperCase_ascii lower_letters_ascii)
  next
    case 3
    have "map_of special_upper [CHR 0xC5, CHR 0xBF] = Some ''S''" by (simp add: special_upper_def)
    from toUpperCase_special [OF this, of r] 3 show ?thesis by simp
  next
    case 4
    have "map_of special_upper [CHR 0xC4, CHR 0xB1] = Some ''I''" by (simp add: special_upper_def)
    from toUpperCase_special [OF this, of r] 4 show ?thesis by simp
  qed
qed

lemma toUpperCase_eq_Cons:
  assumes x: "x \<in> set upper_letters"
    and pre: "list_all (\<lambda>(k, v). take (length v) (x # t) = v \<longrightarrow> v = [x]) special_upper"
  shows "toUpperCase s = x # t
           \<longleftrightarrow> list_ex (\<lambda>form. take (length form) s = form
                                 \<and> toUpperCase (drop (length form) s) = t) (letter_forms x)"
    (is "?l \<longleftrightarrow> ?r")
proof
  assume l: ?l
  show ?r
  proof (cases s rule: convert_case_cases [where sp = special_upper and f = upper_char])
    case empty
    with l show ?thesis by (simp add: toUpperCase_Nil)
  next
    case (special k v s')
    from special(3) l have v: "v @ toUpperCase s' = x # t" by (simp add: toUpperCase_def)
    then have "take (length v) (x # t) = v" by (metis append_eq_conv_conj)
    moreover from special(1) have "(k, v) \<in> set special_upper" by (rule map_of_SomeD)
    ultimately have "v = [x]" using pre by (auto simp: list_all_iff)
    with v special(1) have "k \<in> set (letter_forms x)" and "toUpperCase s' = t"
      by (auto intro: special_letter_forms)
    with special(2) show ?thesis
      unfolding list_ex_iff by (intro bexI [of _ k]) simp_all
  next
    case (plain a s')
    with l have "upper_char a = x" and "toUpperCase s' = t" by (simp_all add: toUpperCase_def)
    with upper_char_letter_forms [OF x, of a] plain(1) show ?thesis
      unfolding list_ex_iff by (intro bexI [of _ "[a]"]) simp_all
  qed
next
  assume ?r
  then obtain w where f: "w \<in> set (letter_forms x)" and s: "take (length w) s = w"
    and t: "toUpperCase (drop (length w) s) = t"
    by (auto simp: list_ex_iff)
  from s have "s = w @ drop (length w) s" by (metis append_take_drop_id)
  with toUpperCase_letter_forms [OF x f, of "drop (length w) s"] t show ?l by simp
qed

lemma toUpperCase_BTC: "toUpperCase s = ''BTC'' \<longleftrightarrow> spells s ''BTC''"
  by (simp add: toUpperCase_eq_Cons toUpperCase_Nil_iff upper_letters_def special_upper_def)

lemma toUpperCase_USD: "toUpperCase s = ''USD'' \<longleftrightarrow> spells s ''USD''"
  by (simp add: toUpperCase_eq_Cons toUpperCase_Nil_iff upper_letters_def special_upper_def)

lemma equal_ignoring_case_spells:
  "set t \<subseteq> set upper_letters \<Longrightarrow> equal_ignoring_case s t \<Longrightarrow> spells s t"
proof (induction t arbitrary: s)
  case Nil
  then show ?case by (simp add: equal_ignoring_case_def)
next
  case (Cons x t)
  from Cons.prems(2) obtain a s' where s: "s = a # s'" and a: "same_letter a x"
    and s': "equal_ignoring_case s' t"
    by (auto simp: equal_ignoring_case_def list_all2_Cons2)
  from Cons.prems(1) have x: "x \<in> set upper_letters" and "set t \<subseteq> set upper_letters" by auto
  with Cons.IH s' have "spells s' t" by simp
  moreover from a have "[a] \<in> set (letter_forms x)"
    using upper_char_letter_forms [OF x] upper_char_eq [OF x, of a] by simp
  ultimately show ?case using s
    unfolding spells.simps list_ex_iff by (intro bexI [of _ "[a]"]) simp_all
qed

lemma toUpperCase_BTC_USD: "toUpperCase ''BTC'' = ''BTC''" "toUpperCase ''USD'' = ''USD''"
  by (simp_all add: toUpperCase_ascii toUpperCase_Nil upper_char_upper upper_letters_def)

section \<open>Requests\<close>

lemma truthy_constructError [simp]: "truthy (Some (constructError m c e))"
  by (simp add: truthy_def constructError_def)

lemma Bitstamp_request_cases:
  "Bitstamp_request rt transport params = (reqs, r) \<Longrightarrow>
     (reqs = [] \<and> r = Inl (constructError ''The request must be either POST or GET.'' MODULE_ERROR None))
   \<or> (\<exists>req. reqs = [req] \<and> r = requestFunction rt (transport req))"
  by (auto simp: Bitstamp_request_def Let_def split: if_splits)

lemma Bitstamp_request_POST:
  "http_method params = ''POST'' \<Longrightarrow>
     \<exists>req. Bitstamp_request rt transport params = ([req], requestFunction rt (transport req))"
  by (simp add: Bitstamp_request_def Let_def)

lemma Bitstamp_post_cases:
  assumes "Bitstamp_post rt self transport k action params = (reqs, r)"
  shows "(reqs = [] \<and> r = Inl (Message ''Must provide key, secret and client ID to make this API request.'')
        \<and> (bitstamp.key self = [] \<or> bitstamp.secret self = [] \<or> bitstamp.clientId self = []))
   \<or> (\<exists>req. reqs = [req] \<and> r = requestFunction rt (transport req)
        \<and> bitstamp.key self \<noteq> [] \<and> bitstamp.secret self \<noteq> [] \<and> bitstamp.clientId self \<noteq> [])"
proof (cases "bitstamp.key self = [] \<or> bitstamp.secret self = [] \<or> bitstamp.clientId self = []")
  case True
  with assms show ?thesis by (auto simp: Bitstamp_post_def)
next
  case False
  then obtain params' where "Bitstamp_post rt self transport k action params
      = Bitstamp_request rt transport params'" and "http_method params' = ''POST''"
    by (simp add: Bitstamp_post_def Let_def)
  with Bitstamp_request_POST [of params' rt transport] assms False show ?thesis by auto
qed

lemma Bitstamp_get_cases:
  "Bitstamp_get rt self transport action = (reqs, r) \<Longrightarrow>
     \<exists>req. reqs = [req] \<and> r = requestFunction rt (transport req)"
  by (auto simp: Bitstamp_get_def Bitstamp_request_def Let_def split: if_splits)

lemma requestFunction_error:
  "requestFunction rt r = Inl e \<Longrightarrow> \<exists>m c z. e = Error m (Some c) z"
  by (auto simp: requestFunction_def constructError_def Let_def
      split: if_splits body.splits option.splits)

lemma requestFunction_truthy: "requestFunction rt r = Inl e \<Longrightarrow> truthy (Some e)"
  by (auto dest: requestFunction_error simp: truthy_def)

lemma Bitstamp_post_truthy:
  "Bitstamp_post rt self transport k action params = (reqs, Inl e) \<Longrightarrow> truthy (Some e)"
  by (auto dest!: Bitstamp_post_cases dest: requestFunction_truthy [OF sym] simp: truthy_def)

lemma Bitstamp_post_Inr_length:
  "Bitstamp_post rt self transport k action params = (reqs, Inr x) \<Longrightarrow> length reqs = 1"
  by (auto dest!: Bitstamp_post_cases)

section \<open>Steps of the paginator\<close>

lemma every_tx_takeWhile:
  "every_tx rt d page (all, c) =
     (all @ takeWhile (\<lambda>tx. \<not> date_gt d (Date rt (Some (raw_tx.datetime tx)))) page,
      c \<and> list_all (\<lambda>tx. \<not> date_gt d (Date rt (Some (raw_tx.datetime tx)))) page)"
  by (induction page arbitrary: all) (auto simp: Let_def)

lemma doWhilst_error:
  "iteratee v = (e, v') \<Longrightarrow> truthy e \<Longrightarrow> doWhilst iteratee chk v = Some (e, v')"
  by (subst doWhilst.simps) simp

lemma doWhilst_stop:
  "iteratee v = (e, v') \<Longrightarrow> \<not> truthy e \<Longrightarrow> \<not> chk v' \<Longrightarrow> doWhilst iteratee chk v = Some (None, v')"
  by (subst doWhilst.simps) simp

lemma doWhilst_continue:
  "iteratee v = (e, v') \<Longrightarrow> \<not> truthy e \<Longrightarrow> chk v' \<Longrightarrow>
     doWhilst iteratee chk v = doWhilst iteratee chk v'"
  by (subst doWhilst.simps) simp

lemma doWhilst_error_origin:
  assumes "doWhilst iteratee chk v = Some y"
  shows "truthy (fst y) \<longrightarrow> (\<exists>u. iteratee u = y)"
proof (rule doWhilst.raw_induct
    [where P = "\<lambda>it ch v y. truthy (fst y) \<longrightarrow> (\<exists>u. it u = y)", OF _ assms])
  fix dw :: "('a \<Rightarrow> js_error option \<times> 'a) \<Rightarrow> ('a \<Rightarrow> bool) \<Rightarrow> 'a \<Rightarrow> (js_error option \<times> 'a) option"
  fix it ch v y
  assume IH: "\<And>it ch v y. dw it ch v = Some y \<Longrightarrow> truthy (fst y) \<longrightarrow> (\<exists>u. it u = y)"
  assume eq: "(case it v of (e, v') \<Rightarrow>
                 if truthy e then Some (e, v')
                 else if ch v' then dw it ch v' else Some (None, v')) = Some y"
  obtain e v' where step: "it v = (e, v')" by (cases "it v")
  show "truthy (fst y) \<longrightarrow> (\<exists>u. it u = y)"
  proof (cases "truthy e")
    case True
    with eq step have "y = it v" by simp
    then show ?thesis by metis
  next
    case False
    show ?thesis
    proof (cases "ch v'")
      case True
      with eq step False have "dw it ch v' = Some y" by simp
      then show ?thesis by (rule IH)
    next
      case c: False
      with eq step False have "y = (None, v')" by simp
      then show ?thesis by (simp add: truthy_def)
    qed
  qed
qed

lemma post_error:
  "request_page rt self transport (length (issued v)) (offset v) = (reqs, Inl e) \<Longrightarrow>
     post rt self transport d v = (Some e, v \<lparr> continueIteration := False, issued := issued v @ reqs \<rparr>)"
  by (simp add: post_def)

lemma post_page:
  "request_page rt self transport (length (issued v)) (offset v) = (reqs, Inr page) \<Longrightarrow>
     post rt self transport d v =
       (None, v \<lparr> transactionsAll := transactionsAll v
                     @ takeWhile (\<lambda>tx. \<not> date_gt d (Date rt (Some (raw_tx.datetime tx)))) page,
                  offset := offset v + responseLength,
                  continueIteration := \<not> length page < BITSTAMP_REQUEST_LIMIT \<and> continueIteration v
                     \<and> list_all (\<lambda>tx. \<not> date_gt d (Date rt (Some (raw_tx.datetime tx)))) page,
                  issued := issued v @ reqs \<rparr>)"
  by (auto simp: post_def every_tx_takeWhile)

lemma post_origin:
  "post rt self transport d u = (Some e, v') \<Longrightarrow>
     \<exists>k off reqs. request_page rt self transport k off = (reqs, Inl e)"
  by (auto simp: post_def Let_def split: prod.splits sum.splits)

section \<open>Scanning a page\<close>

text \<open>
  C2, as amended. The scan of a page stops at the first transaction whose timestamp is
  strictly older than the boundary date: that transaction and the ones after it are not
  appended, the transactions before it are, and the loop ends after this iteration. A
  transaction whose timestamp equals the boundary is not older: a page that holds no
  strictly older transaction is appended whole, and the scan leaves the flag as it was.
\<close>

theorem scan_stops_at_first_older_transaction:
  assumes "page = accepted @ tx # later"
    and "list_all (\<lambda>t. \<not> date_gt earliestDate (Date rt (Some (raw_tx.datetime t)))) accepted"
    and "date_gt earliestDate (Date rt (Some (raw_tx.datetime tx)))"
  shows "every_tx rt earliestDate page (acc, c) = (acc @ accepted, False)
     \<and> (\<forall>self transport v reqs.
          request_page rt self transport (length (issued v)) (offset v) = (reqs, Inr page) \<longrightarrow>
          doWhilst (post rt self transport earliestDate) check v =
            Some (None, v \<lparr> transactionsAll := transactionsAll v @ accepted,
                             offset := offset v + responseLength,
                             continueIteration := False,
                             issued := issued v @ reqs \<rparr>))
     \<and> (\<forall>page'. list_all (\<lambda>t. \<not> date_gt earliestDate (Date rt (Some (raw_tx.datetime t)))) page' \<longrightarrow>
          every_tx rt earliestDate page' (acc, c) = (acc @ page', c))"
proof -
  let ?ok = "\<lambda>t. \<not> date_gt earliestDate (Date rt (Some (raw_tx.datetime t)))"
  from assms(2) have all_ok: "\<forall>t \<in> set accepted. ?ok t" by (simp add: list_all_iff)
  from assms(1,3) all_ok have tw: "takeWhile ?ok page = accepted"
    by (simp add: takeWhile_append2)
  from assms(1,3) have not_all: "\<not> list_all ?ok page" by (simp add: list_all_iff)
  have scan: "every_tx rt earliestDate page (acc, c) = (acc @ accepted, False)"
    by (simp add: every_tx_takeWhile tw not_all)
  have loop: "doWhilst (post rt self transport earliestDate) check v =
            Some (None, v \<lparr> transactionsAll := transactionsAll v @ accepted,
                             offset := offset v + responseLength,
                             continueIteration := False,
                             issued := issued v @ reqs \<rparr>)"
    if "request_page rt self transport (length (issued v)) (offset v) = (reqs, Inr page)"
    for self transport v reqs
    by (rule doWhilst_stop [where e = None])
       (simp_all add: post_page [OF that] tw not_all truthy_def check_def)
  have rest: "every_tx rt earliestDate page' (acc, c) = (acc @ page', c)"
    if "list_all ?ok page'" for page'
    using that by (simp add: every_tx_takeWhile list_all_iff)
  from scan loop rest show ?thesis by blast
qed

lemma Date_deposit_at_5:
  "Date example_runtime (Some (raw_tx.datetime (deposit_at 5))) = Some 201601010000001005"
  by (simp add: example_runtime_def deposit_at_def decimal.simps digits_value_def digit_value_def)

theorem scan_stops_at_first_older_transaction_witness:
  "every_tx example_runtime (Some 201601010000001005)
     [deposit_at 7, deposit_at 5, deposit_at 3, deposit_at 1] ([], True)
   = ([deposit_at 7, deposit_at 5], False)"
  using scan_stops_at_first_older_transaction
    [of "[deposit_at 7, deposit_at 5, deposit_at 3, deposit_at 1]" "[deposit_at 7, deposit_at 5]"
        "deposit_at 3" "[deposit_at 1]" "Some 201601010000001005" example_runtime "[]" True]
  by (simp add: example_runtime_def deposit_at_def decimal.simps digits_value_def digit_value_def
      date_gt_def)

text \<open>
  C2 as stated fails: a transaction stamped with the boundary date itself is not strictly
  newer than the boundary, and the scan appends it and does not mark the loop.
\<close>

theorem transaction_at_boundary_is_appended:
  "Date example_runtime (Some (raw_tx.datetime (deposit_at 5))) = Some 201601010000001005
   \<and> \<not> date_gt (Date example_runtime (Some (raw_tx.datetime (deposit_at 5)))) (Some 201601010000001005)
   \<and> every_tx example_runtime (Some 201601010000001005) [deposit_at 5] ([], True)
       = ([deposit_at 5], True)"
  by (simp add: Date_deposit_at_5 date_gt_def)

section \<open>The transaction normalizer\<close>

text \<open>
  C6. When the raw BTC amount parses to exactly zero, the normalized transaction is in USD
  and its amount is the converted USD amount; otherwise it is in BTC and its amount is the
  converted BTC amount. The record has one amount and one currency.
\<close>

theorem constructTransactionObject_currency_selection:
  "(is_zero (parseFloat rt (raw_tx.btc currentTx)) \<longrightarrow>
      currency (constructTransactionObject rt currentTx) = ''USD''
    \<and> amount (constructTransactionObject rt currentTx)
        = toSmallestSubunit rt (Number (parseFloat rt (raw_tx.usd currentTx))) ''USD'')
   \<and> (\<not> is_zero (parseFloat rt (raw_tx.btc currentTx)) \<longrightarrow>
      currency (constructTransactionObject rt currentTx) = ''BTC''
    \<and> amount (constructTransactionObject rt currentTx)
        = toSmallestSubunit rt (Number (parseFloat rt (raw_tx.btc currentTx))) ''BTC'')"
  by (simp add: constructTransactionObject_def Let_def)

theorem constructTransactionObject_currency_selection_witness:
  "is_zero (parseFloat example_runtime (raw_tx.btc usd_deposit))
   \<and> currency (constructTransactionObject example_runtime usd_deposit) = ''USD''
   \<and> amount (constructTransactionObject example_runtime usd_deposit) = 1250
   \<and> \<not> is_zero (parseFloat example_runtime (raw_tx.btc (deposit_at 1)))
   \<and> currency (constructTransactionObject example_runtime (deposit_at 1)) = ''BTC''
   \<and> amount (constructTransactionObject example_runtime (deposit_at 1)) = 100000000"
proof -
  have z: "is_zero (parseFloat example_runtime (raw_tx.btc usd_deposit))"
    by (simp add: example_runtime_def usd_deposit_def deposit_at_def is_zero_def
        parse_decimal_def fraction_digits_def digits_value_def digit_value_def)
  have u: "toSmallestSubunit example_runtime
             (Number (parseFloat example_runtime (raw_tx.usd usd_deposit))) ''USD'' = 1250"
    by (simp add: example_runtime_def usd_deposit_def deposit_at_def subunits_def
        parse_decimal_def fraction_digits_def digits_value_def digit_value_def)
  have nz: "\<not> is_zero (parseFloat example_runtime (raw_tx.btc (deposit_at 1)))"
    by (simp add: example_runtime_def deposit_at_def is_zero_def
        parse_decimal_def fraction_digits_def digits_value_def digit_value_def)
  have b: "toSmallestSubunit example_runtime
             (Number (parseFloat example_runtime (raw_tx.btc (deposit_at 1)))) ''BTC'' = 100000000"
    by (simp add: example_runtime_def deposit_at_def subunits_def
        parse_decimal_def fraction_digits_def digits_value_def digit_value_def)
  from constructTransactionObject_currency_selection [of example_runtime usd_deposit]
    constructTransactionObject_currency_selection [of example_runtime "deposit_at 1"]
    z u nz b
  show ?thesis by simp
qed

section \<open>The order normalizer of getTrade\<close>

lemma sum_list_map_uminus: "sum_list (map (\<lambda>x. - f x) xs) = - sum_list (map f xs)" for f :: "'a \<Rightarrow> int"
  by (induction xs) simp_all

lemma sum_list_pos: "xs \<noteq> [] \<Longrightarrow> \<forall>x \<in> set xs. 0 < f x \<Longrightarrow> 0 < sum_list (map f xs)" for f :: "'a \<Rightarrow> int"
proof (induction xs)
  case Nil
  then show ?case by simp
next
  case (Cons a xs)
  then show ?case by (cases "xs = []") (auto intro: add_pos_pos)
qed

text \<open>
  C5. For an order that \<open>getTrade\<close> fetches, the base, quote and fee amounts are the sums
  of the converted amounts of the fills, the base amounts negated for a sell order and the
  quote amounts for a buy order; so the base amount of a sell order (the quote amount of a
  buy order) is negative when there are fills and each converts to a positive amount. The
  state is closed exactly when the reported status is \<open>finished\<close> up to letter case, and
  open otherwise.
\<close>

theorem getTrade_sums_the_fills:
  assumes "Bitstamp_post rt self transport 0 ''order_status'' [(''id'', PInt (raw_id trade))]
             = (reqs, Inr res)"
    and "raw_orderType trade = TYPE_SELL_ORDER \<or> raw_orderType trade = TYPE_BUY_ORDER"
  shows "\<exists>ord. getTrade rt self transport (Some trade) = (reqs, Inr ord)
     \<and> order.baseAmount ord =
         (if raw_orderType trade = TYPE_SELL_ORDER
          then - (\<Sum>f\<leftarrow>transactions res. toSmallestSubunit rt (Text (fill.btc f)) ''BTC'')
          else (\<Sum>f\<leftarrow>transactions res. toSmallestSubunit rt (Text (fill.btc f)) ''BTC''))
     \<and> order.quoteAmount ord =
         (if raw_orderType trade = TYPE_BUY_ORDER
          then - (\<Sum>f\<leftarrow>transactions res. toSmallestSubunit rt (Text (fill.usd f)) ''USD'')
          else (\<Sum>f\<leftarrow>transactions res. toSmallestSubunit rt (Text (fill.usd f)) ''USD''))
     \<and> order.feeAmount ord = (\<Sum>f\<leftarrow>transactions res. toSmallestSubunit rt (Text (fill.fee f)) ''USD'')
     \<and> (order.state ord = ''closed'' \<longleftrightarrow> equal_ignoring_case (status res) ''finished'')
     \<and> (order.state ord = ''open'' \<longleftrightarrow> \<not> equal_ignoring_case (status res) ''finished'')
     \<and> (raw_orderType trade = TYPE_SELL_ORDER \<and> transactions res \<noteq> []
          \<and> (\<forall>f \<in> set (transactions res). 0 < toSmallestSubunit rt (Text (fill.btc f)) ''BTC'')
         \<longrightarrow> order.baseAmount ord < 0)
     \<and> (raw_orderType trade = TYPE_BUY_ORDER \<and> transactions res \<noteq> []
          \<and> (\<forall>f \<in> set (transactions res). 0 < toSmallestSubunit rt (Text (fill.usd f)) ''USD'')
         \<longrightarrow> order.quoteAmount ord < 0)"
proof -
  have tr: "transactions (case order_status_id res of
                None \<Rightarrow> res \<lparr> order_status_id := Some (raw_id trade) \<rparr> | Some x \<Rightarrow> res)
            = transactions res"
    and st: "status (case order_status_id res of
                None \<Rightarrow> res \<lparr> order_status_id := Some (raw_id trade) \<rparr> | Some x \<Rightarrow> res)
            = status res"
    by (simp_all split: option.splits)
  have pos_b: "0 < (\<Sum>f\<leftarrow>transactions res. toSmallestSubunit rt (Text (fill.btc f)) ''BTC'')"
    if "transactions res \<noteq> []"
      "\<forall>f \<in> set (transactions res). 0 < toSmallestSubunit rt (Text (fill.btc f)) ''BTC''"
    using that by (rule sum_list_pos)
  have pos_q: "0 < (\<Sum>f\<leftarrow>transactions res. toSmallestSubunit rt (Text (fill.usd f)) ''USD'')"
    if "transactions res \<noteq> []"
      "\<forall>f \<in> set (transactions res). 0 < toSmallestSubunit rt (Text (fill.usd f)) ''USD''"
    using that by (rule sum_list_pos)
  show ?thesis
    using assms pos_b pos_q
    by (auto simp: getTrade_def Let_def tr st sum_list_map_uminus toLowerCase_finished
        TYPE_SELL_ORDER_def TYPE_BUY_ORDER_def)
qed


lemma example_post_answer:
  "\<exists>reqs. Bitstamp_post example_runtime example_client (answering a) k action params = (reqs, Inr a)"
  by (simp add: Bitstamp_post_def Bitstamp_request_def requestFunction_def answering_def
      example_client_def Bitstamp_def truthy_def Let_def)

theorem getTrade_sums_the_fills_witness:
  "\<exists>reqs ord. Bitstamp_post example_runtime example_client (answering two_fills) 0 ''order_status''
        [(''id'', PInt 42)] = (reqs, Inr two_fills)
     \<and> getTrade example_runtime example_client (answering two_fills)
          (Some \<lparr> raw_id = 42, raw_orderType = ''sell'' \<rparr>) = (reqs, Inr ord)
     \<and> order.baseAmount ord = - 200000000 \<and> order.quoteAmount ord = 74526
     \<and> order.feeAmount ord = 11 \<and> order.state ord = ''closed''"
proof -
  obtain reqs where p: "Bitstamp_post example_runtime example_client (answering two_fills) 0
      ''order_status'' [(''id'', PInt (raw_id \<lparr> raw_id = 42, raw_orderType = ''sell'' \<rparr>))]
      = (reqs, Inr two_fills)"
    using example_post_answer [of two_fills 0 "''order_status''"] by auto
  have s: "raw_orderType \<lparr> raw_id = 42, raw_orderType = ''sell'' \<rparr> = TYPE_SELL_ORDER
         \<or> raw_orderType \<lparr> raw_id = 42, raw_orderType = ''sell'' \<rparr> = TYPE_BUY_ORDER"
    by (simp add: TYPE_SELL_ORDER_def)
  have f: "equal_ignoring_case (status two_fills) ''finished''"
    by (simp add: two_fills_def equal_ignoring_case_def same_letter_def
        lower_letters_def upper_letters_def)
  have b: "(\<Sum>f\<leftarrow>transactions two_fills. toSmallestSubunit example_runtime (Text (fill.btc f)) ''BTC'')
             = 200000000"
    and q: "(\<Sum>f\<leftarrow>transactions two_fills. toSmallestSubunit example_runtime (Text (fill.usd f)) ''USD'')
             = 74526"
    and fe: "(\<Sum>f\<leftarrow>transactions two_fills. toSmallestSubunit example_runtime (Text (fill.fee f)) ''USD'')
             = 11"
    by (simp_all add: two_fills_def example_runtime_def subunits_def
        parse_decimal_def fraction_digits_def digits_value_def digit_value_def)
  from getTrade_sums_the_fills [OF p s] obtain ord where
    "getTrade example_runtime example_client (answering two_fills)
       (Some \<lparr> raw_id = 42, raw_orderType = ''sell'' \<rparr>) = (reqs, Inr ord)"
    "order.baseAmount ord = - 200000000" "order.quoteAmount ord = 74526"
    "order.feeAmount ord = 11" "order.state ord = ''closed''"
    unfolding b q fe using f by (auto simp: TYPE_SELL_ORDER_def TYPE_BUY_ORDER_def)
  with p show ?thesis by auto
qed

section \<open>Reclassification of insufficient funds\<close>

lemma buy_pattern_nonempty: "test REGEX_PATTERN_BUY_ERROR_INSUFFICIENT_FUNDS m \<Longrightarrow> m \<noteq> []"
  by (auto simp: test_def REGEX_PATTERN_BUY_ERROR_INSUFFICIENT_FUNDS_def)

lemma sell_pattern_nonempty: "test REGEX_PATTERN_SELL_ERROR_INSUFFICIENT_FUNDS m \<Longrightarrow> m \<noteq> []"
  by (auto simp: test_def REGEX_PATTERN_SELL_ERROR_INSUFFICIENT_FUNDS_def)

lemma sell_pattern_example:
  "test REGEX_PATTERN_SELL_ERROR_INSUFFICIENT_FUNDS
     ''You have only 0.00000000 BTC available. Check your account balance for details.''"
  by (simp add: test_def REGEX_PATTERN_SELL_ERROR_INSUFFICIENT_FUNDS_def amount_pattern_def
      currency_pattern_def in_class_def upper_letters_def)

lemma buy_pattern_example:
  "\<not> test REGEX_PATTERN_BUY_ERROR_INSUFFICIENT_FUNDS
     ''You have only 0.00000000 BTC available. Check your account balance for details.''"
  by (simp add: test_def REGEX_PATTERN_BUY_ERROR_INSUFFICIENT_FUNDS_def)

lemma find_insufficient_funds:
  assumes "\<exists>m \<in> set allErrors. test REGEX_PATTERN_BUY_ERROR_INSUFFICIENT_FUNDS m
                               \<or> test REGEX_PATTERN_SELL_ERROR_INSUFFICIENT_FUNDS m"
  shows "\<exists>m \<in> set allErrors. m \<noteq> []
      \<and> (test REGEX_PATTERN_BUY_ERROR_INSUFFICIENT_FUNDS m
           \<or> test REGEX_PATTERN_SELL_ERROR_INSUFFICIENT_FUNDS m)
      \<and> or_else (find (test REGEX_PATTERN_BUY_ERROR_INSUFFICIENT_FUNDS) allErrors)
                 (find (test REGEX_PATTERN_SELL_ERROR_INSUFFICIENT_FUNDS) allErrors) = Some m"
proof (cases "find (test REGEX_PATTERN_BUY_ERROR_INSUFFICIENT_FUNDS) allErrors")
  case None
  then have nb: "\<forall>m \<in> set allErrors. \<not> test REGEX_PATTERN_BUY_ERROR_INSUFFICIENT_FUNDS m"
    by (simp add: find_None_iff)
  with assms obtain m where "find (test REGEX_PATTERN_SELL_ERROR_INSUFFICIENT_FUNDS) allErrors = Some m"
    by (cases "find (test REGEX_PATTERN_SELL_ERROR_INSUFFICIENT_FUNDS) allErrors")
       (auto simp: find_None_iff)
  moreover from this have "m \<in> set allErrors" "test REGEX_PATTERN_SELL_ERROR_INSUFFICIENT_FUNDS m"
    by (auto simp: find_Some_iff)
  ultimately show ?thesis
    using None sell_pattern_nonempty [of m] by (auto simp: or_else_def truthy_string_def)
next
  case (Some m)
  then have "m \<in> set allErrors" "test REGEX_PATTERN_BUY_ERROR_INSUFFICIENT_FUNDS m"
    by (auto simp: find_Some_iff)
  then show ?thesis
    using Some buy_pattern_nonempty [of m] by (auto simp: or_else_def truthy_string_def)
qed

text \<open>
  C4. When the parsed body has an \<open>error\<close> member with an \<open>__all__\<close> list and a message
  of the list matches the buy-side or the sell-side pattern, the interpreter answers with
  an insufficient-funds error whose message is a matching message of the list, as the
  server wrote it, in place of the generic server error. The body of the spec's example
  yields the insufficient-funds error with the example's message.
\<close>

theorem insufficient_funds_reclassified:
  assumes "\<not> truthy (err r)" and "\<not> truthy (res_error r)"
    and "body r = Json data" and "error data = Some (ErrorFields members)"
    and "map_of members ''__all__'' = Some allErrors"
    and "\<exists>m \<in> set allErrors. test REGEX_PATTERN_BUY_ERROR_INSUFFICIENT_FUNDS m
                             \<or> test REGEX_PATTERN_SELL_ERROR_INSUFFICIENT_FUNDS m"
  shows "(\<exists>m \<in> set allErrors.
            (test REGEX_PATTERN_BUY_ERROR_INSUFFICIENT_FUNDS m
               \<or> test REGEX_PATTERN_SELL_ERROR_INSUFFICIENT_FUNDS m)
          \<and> requestFunction rt r = Inl (Error m (Some INSUFFICIENT_FUNDS) None))
     \<and> requestFunction rt
          \<lparr> err = None, res_error = None,
            body = Json \<lparr> error = Some (ErrorFields [(''__all__'',
              [''You have only 0.00000000 BTC available. Check your account balance for details.''])]),
              content = a \<rparr> \<rparr>
        = Inl (Error ''You have only 0.00000000 BTC available. Check your account balance for details.''
                 (Some INSUFFICIENT_FUNDS) None)"
proof -
  from find_insufficient_funds [OF assms(6)] obtain m where m: "m \<in> set allErrors" "m \<noteq> []"
    "test REGEX_PATTERN_BUY_ERROR_INSUFFICIENT_FUNDS m \<or> test REGEX_PATTERN_SELL_ERROR_INSUFFICIENT_FUNDS m"
    "or_else (find (test REGEX_PATTERN_BUY_ERROR_INSUFFICIENT_FUNDS) allErrors)
             (find (test REGEX_PATTERN_SELL_ERROR_INSUFFICIENT_FUNDS) allErrors) = Some m"
    by blast
  from assms(1-5) m(2,4) have "requestFunction rt r = Inl (Error m (Some INSUFFICIENT_FUNDS) None)"
    by (simp add: requestFunction_def truthy_payload_def all_errors_def constructError_def
        truthy_def Let_def)
  with m have general: "\<exists>m \<in> set allErrors.
            (test REGEX_PATTERN_BUY_ERROR_INSUFFICIENT_FUNDS m
               \<or> test REGEX_PATTERN_SELL_ERROR_INSUFFICIENT_FUNDS m)
          \<and> requestFunction rt r = Inl (Error m (Some INSUFFICIENT_FUNDS) None)"
    by blast
  have particular: "requestFunction rt
          \<lparr> err = None, res_error = None,
            body = Json \<lparr> error = Some (ErrorFields [(''__all__'',
              [''You have only 0.00000000 BTC available. Check your account balance for details.''])]),
              content = a \<rparr> \<rparr>
        = Inl (Error ''You have only 0.00000000 BTC available. Check your account balance for details.''
                 (Some INSUFFICIENT_FUNDS) None)"
    using sell_pattern_example buy_pattern_example
    by (simp add: requestFunction_def truthy_payload_def all_errors_def constructError_def
        truthy_def Let_def or_else_def truthy_string_def)
  from general particular show ?thesis ..
qed

theorem insufficient_funds_reclassified_witness:
  "\<exists>m \<in> set [''Minimum order size is $5.'', no_funds_to_buy, no_funds_to_sell].
      (test REGEX_PATTERN_BUY_ERROR_INSUFFICIENT_FUNDS m
         \<or> test REGEX_PATTERN_SELL_ERROR_INSUFFICIENT_FUNDS m)
    \<and> requestFunction example_runtime
         \<lparr> err = None, res_error = None,
           body = Json \<lparr> error = Some (ErrorFields
                    [(''amount'', [''Enter a number.'']),
                     (''__all__'', [''Minimum order size is $5.'', no_funds_to_buy, no_funds_to_sell])]),
                  content = example_placed \<rparr> \<rparr>
        = Inl (Error m (Some INSUFFICIENT_FUNDS) None)"
proof -
  have b: "test REGEX_PATTERN_BUY_ERROR_INSUFFICIENT_FUNDS no_funds_to_buy"
    by (simp add: no_funds_to_buy_def test_def REGEX_PATTERN_BUY_ERROR_INSUFFICIENT_FUNDS_def
        amount_pattern_def currency_pattern_def in_class_def upper_letters_def)
  from b insufficient_funds_reclassified
    [where rt = example_runtime
       and allErrors = "[''Minimum order size is $5.'', no_funds_to_buy, no_funds_to_sell]"
       and members = "[(''amount'', [''Enter a number.'']),
                      (''__all__'', [''Minimum order size is $5.'', no_funds_to_buy, no_funds_to_sell])]"
       and data = "\<lparr> error = Some (ErrorFields
                    [(''amount'', [''Enter a number.'']),
                     (''__all__'', [''Minimum order size is $5.'', no_funds_to_buy, no_funds_to_sell])]),
                  content = example_placed \<rparr>"
       and r = "\<lparr> err = None, res_error = None,
           body = Json \<lparr> error = Some (ErrorFields
                    [(''amount'', [''Enter a number.'']),
                     (''__all__'', [''Minimum order size is $5.'', no_funds_to_buy, no_funds_to_sell])]),
                  content = example_placed \<rparr> \<rparr>",
     THEN conjunct1]
  show ?thesis by (simp add: truthy_def)
qed

section \<open>A listing that fails\<close>

lemma doWhilst_fails_after_full_pages:
  assumes pages: "\<And>i. k \<le> i \<Longrightarrow> i < n \<Longrightarrow>
      \<exists>reqs page. request_page rt self transport i (i * responseLength) = (reqs, Inr page)
        \<and> \<not> length page < BITSTAMP_REQUEST_LIMIT
        \<and> list_all (\<lambda>tx. \<not> date_gt d (Date rt (Some (raw_tx.datetime tx)))) page"
    and fail: "request_page rt self transport n (n * responseLength) = (reqs, Inl failure)"
    and "k \<le> n" and "length (issued v) = k" and "offset v = k * responseLength"
    and "continueIteration v"
  shows "\<exists>v'. doWhilst (post rt self transport d) check v = Some (Some failure, v')"
  using assms
proof (induction "n - k" arbitrary: k v)
  case 0
  then have "k = n" by simp
  with 0 have "post rt self transport d v
      = (Some failure, v \<lparr> continueIteration := False, issued := issued v @ reqs \<rparr>)"
    by (simp add: post_error)
  moreover from fail have "truthy (Some failure)"
    unfolding request_page_def by (rule Bitstamp_post_truthy)
  ultimately show ?case by (auto intro: doWhilst_error)
next
  case (Suc m)
  then have "k < n" by simp
  with Suc.prems(1) [of k] obtain rs page where
    page: "request_page rt self transport k (k * responseLength) = (rs, Inr page)"
      "\<not> length page < BITSTAMP_REQUEST_LIMIT"
      "list_all (\<lambda>tx. \<not> date_gt d (Date rt (Some (raw_tx.datetime tx)))) page"
    by auto
  from page(1) have one: "length rs = 1"
    unfolding request_page_def by (rule Bitstamp_post_Inr_length)
  let ?v = "v \<lparr> transactionsAll := transactionsAll v
                     @ takeWhile (\<lambda>tx. \<not> date_gt d (Date rt (Some (raw_tx.datetime tx)))) page,
                  offset := offset v + responseLength,
                  continueIteration := \<not> length page < BITSTAMP_REQUEST_LIMIT \<and> continueIteration v
                     \<and> list_all (\<lambda>tx. \<not> date_gt d (Date rt (Some (raw_tx.datetime tx)))) page,
                  issued := issued v @ rs \<rparr>"
  from page(1) Suc.prems(4,5) have step: "post rt self transport d v = (None, ?v)"
    by (simp add: post_page)
  from page(2,3) Suc.prems(6) have go: "check ?v" by (simp add: check_def)
  have "doWhilst (post rt self transport d) check v = doWhilst (post rt self transport d) check ?v"
    using step _ go by (rule doWhilst_continue) (simp add: truthy_def)
  moreover have "\<exists>v'. doWhilst (post rt self transport d) check ?v = Some (Some failure, v')"
  proof (rule Suc.hyps(1) [of "Suc k"])
    from Suc.hyps(2) show "m = n - Suc k" by simp
    show "\<exists>reqs page. request_page rt self transport i (i * responseLength) = (reqs, Inr page)
        \<and> \<not> length page < BITSTAMP_REQUEST_LIMIT
        \<and> list_all (\<lambda>tx. \<not> date_gt d (Date rt (Some (raw_tx.datetime tx)))) page"
      if "Suc k \<le> i" "i < n" for i
      using that Suc.prems(1) [of i] by simp
    from fail show "request_page rt self transport n (n * responseLength) = (reqs, Inl failure)" .
    from \<open>k < n\<close> show "Suc k \<le> n" by simp
    from one Suc.prems(4) show "length (issued ?v) = Suc k" by simp
    from Suc.prems(5) show "offset ?v = Suc k * responseLength" by simp
    from page(2,3) Suc.prems(6) show "continueIteration ?v" by simp
  qed
  ultimately show ?case by simp
qed

text \<open>
  C3. When the first \<open>n\<close> pages of a listing arrive whole and keep the loop going, and
  the request for the next page fails, whatever the number \<open>n\<close> of pages gathered so far,
  \<open>iterateRequestTxs\<close>, \<open>listTransactions\<close> and \<open>listTrades\<close> end with one error, the
  listing error whose cause is the error of the failed request, and with no transactions:
  the callback receives the error alone, the promise is rejected with it.
\<close>

theorem listing_failure_discards_pages:
  assumes "\<forall>i<n. \<exists>reqs page.
        request_page rt self transport i (i * responseLength) = (reqs, Inr page)
      \<and> \<not> length page < BITSTAMP_REQUEST_LIMIT
      \<and> list_all (\<lambda>tx. \<not> date_gt earliestDate (Date rt (Some (raw_tx.datetime tx)))) page"
    and "request_page rt self transport n (n * responseLength) = (reqs, Inl failure)"
  shows "\<exists>issued_requests.
       iterateRequestTxs rt self transport earliestDate
         = Some (issued_requests, Inl (Error ''Trades could not be listed.'' (Some MODULE_ERROR) (Some failure)))
     \<and> (\<forall>latestTransaction. latestTxDate_of_transaction rt latestTransaction = earliestDate \<longrightarrow>
          listTransactions rt self transport latestTransaction
            = Some (issued_requests, Inl (Error ''Trades could not be listed.'' (Some MODULE_ERROR) (Some failure))))
     \<and> (\<forall>latestTrade. latestTxDate_of_trade rt latestTrade = Inr earliestDate \<longrightarrow>
          listTrades rt self transport latestTrade
            = Inr (Some (issued_requests, Inl (Error ''Trades could not be listed.'' (Some MODULE_ERROR) (Some failure)))))"
proof -
  let ?v0 = "\<lparr> transactionsAll = [], offset = 0, continueIteration = True, issued = [] \<rparr>"
  from assms(2) have t: "truthy (Some failure)"
    unfolding request_page_def by (rule Bitstamp_post_truthy)
  have "\<exists>v'. doWhilst (post rt self transport earliestDate) check ?v0 = Some (Some failure, v')"
    by (rule doWhilst_fails_after_full_pages [where k = 0 and n = n, OF _ assms(2)])
       (use assms(1) in simp_all)
  then obtain v' where "doWhilst (post rt self transport earliestDate) check ?v0 = Some (Some failure, v')" ..
  with t have run: "iterateRequestTxs rt self transport earliestDate
      = Some (issued v', Inl (Error ''Trades could not be listed.'' (Some MODULE_ERROR) (Some failure)))"
    by (simp add: iterateRequestTxs_def done_cb_def constructError_def)
  then show ?thesis
    by (auto simp: listTransactions_def listTrades_def Let_def)
qed

section \<open>Requests of the example client\<close>

lemma example_request_page:
  "\<exists>req. request_page example_runtime example_client transport k off
            = ([req], requestFunction example_runtime (transport req))
        \<and> nat_param req ''offset'' = off \<and> nat_param req ''limit'' = 100"
  by (simp add: request_page_def Bitstamp_post_def Bitstamp_request_def example_client_def
      Bitstamp_def Let_def lodash_extend_def nat_param_def BITSTAMP_REQUEST_LIMIT_def)

lemma requestFunction_serving:
  "nat_param req ''offset'' = off \<Longrightarrow> nat_param req ''limit'' = page_size \<Longrightarrow>
     requestFunction rt (serving txs req) = Inr (take page_size (drop off txs))"
  by (simp add: serving_def requestFunction_def truthy_def)

lemma requestFunction_unreachable:
  "truthy (Some e) \<Longrightarrow>
     requestFunction rt (unreachable e req)
       = Inl (Error ''There is an error in the response from the Bitstamp service...''
                (Some EXCHANGE_SERVER_ERROR) (Some e))"
  by (simp add: unreachable_def requestFunction_def constructError_def)

lemma example_dates_after_epoch:
  "\<not> date_gt (Some 0) (Date example_runtime (Some s))"
  by (simp add: example_runtime_def date_gt_def)

lemma length_history [simp]: "length (history n) = n"
  by (simp add: history_def)

theorem listing_failure_discards_pages_witness:
  "\<exists>issued_requests reqs.
      request_page example_runtime example_client (failing_from 1000 ETIMEDOUT (history 150)) 0 0
        = (reqs, Inr (take 100 (history 150)))
    \<and> listTransactions example_runtime example_client (failing_from 1000 ETIMEDOUT (history 150)) None
        = Some (issued_requests,
            Inl (Error ''Trades could not be listed.'' (Some MODULE_ERROR)
              (Some (Error ''There is an error in the response from the Bitstamp service...''
                       (Some EXCHANGE_SERVER_ERROR) (Some ETIMEDOUT)))))"
proof -
  let ?t = "failing_from 1000 ETIMEDOUT (history 150)"
  let ?failure = "Error ''There is an error in the response from the Bitstamp service...''
                       (Some EXCHANGE_SERVER_ERROR) (Some ETIMEDOUT)"
  obtain req0 where p0: "request_page example_runtime example_client ?t 0 0
      = ([req0], Inr (take 100 (history 150)))"
    using example_request_page [of ?t 0 0]
    by (auto simp: failing_from_def requestFunction_serving)
  obtain req1 where p1: "request_page example_runtime example_client ?t 1 (1 * responseLength)
      = ([req1], Inl ?failure)"
    using example_request_page [of ?t 1 1000]
    by (auto simp: failing_from_def requestFunction_unreachable responseLength_def
        ETIMEDOUT_def truthy_def)
  have pages: "\<forall>i<1. \<exists>reqs page.
        request_page example_runtime example_client ?t i (i * responseLength) = (reqs, Inr page)
      \<and> \<not> length page < BITSTAMP_REQUEST_LIMIT
      \<and> list_all (\<lambda>tx. \<not> date_gt (Some 0) (Date example_runtime (Some (raw_tx.datetime tx)))) page"
    using p0 by (simp add: BITSTAMP_REQUEST_LIMIT_def example_dates_after_epoch list_all_iff)
  from listing_failure_discards_pages [OF pages p1] p0 show ?thesis
    by (auto simp: latestTxDate_of_transaction_def)
qed

section \<open>The offset of the next page\<close>

lemma deposit_at_0_skipped:
  "deposit_at 0 \<in> set (history 101) \<and> deposit_at 0 \<notin> set (take 100 (history 101))"
proof -
  have "take 100 (history 101) = map deposit_at (rev [1..<101])"
    by (simp add: history_def take_map take_rev)
  moreover have "deposit_at 0 \<notin> set (map deposit_at (rev [1..<101]))"
  proof
    assume "deposit_at 0 \<in> set (map deposit_at (rev [1..<101]))"
    then obtain k where "k \<in> {1..<101}" "deposit_at 0 = deposit_at k" by auto
    then have "tx_id (deposit_at 0) = tx_id (deposit_at k)" by simp
    with \<open>k \<in> {1..<101}\<close> show False by (simp add: deposit_at_def)
  qed
  moreover have "deposit_at 0 \<in> set (history 101)" by (simp add: history_def)
  ultimately show ?thesis by simp
qed

lemma deposit_at_0_after_epoch:
  "date_gt (Date example_runtime (Some (raw_tx.datetime (deposit_at 0)))) (Some 0)"
  by (simp add: example_runtime_def deposit_at_def decimal.simps digits_value_def digit_value_def
      date_gt_def)

text \<open>
  C1 fails on the code. The loop asks for 100 transactions and then advances the offset by
  \<open>responseLength\<close>, which is 1000: after the page at offset 0 it asks for the page at
  offset 1000. On an exchange that holds 101 deposits, all newer than the epoch, the loop
  ends with the 100 newest; the oldest deposit, newer than the boundary, is not among them.
\<close>

theorem iterateRequestTxs_skips_transactions:
  "map_option snd (iterateRequestTxs example_runtime example_client (serving (history 101)) (Some 0))
     = Some (Inr (take 100 (history 101)))
   \<and> map_option (map (\<lambda>req. nat_param req ''offset'') \<circ> fst)
       (iterateRequestTxs example_runtime example_client (serving (history 101)) (Some 0))
     = Some [0, 1000]
   \<and> deposit_at 0 \<in> set (history 101)
   \<and> deposit_at 0 \<notin> set (take 100 (history 101))
   \<and> date_gt (Date example_runtime (Some (raw_tx.datetime (deposit_at 0)))) (Some 0)"
proof -
  let ?t = "serving (history 101)"
  let ?post = "post example_runtime example_client ?t (Some 0)"
  let ?v0 = "\<lparr> transactionsAll = [], offset = 0, continueIteration = True, issued = [] \<rparr>"
  obtain req0 where p0: "request_page example_runtime example_client ?t 0 0
      = ([req0], Inr (take 100 (history 101)))" and o0: "nat_param req0 ''offset'' = 0"
    using example_request_page [of ?t 0 0] by (auto simp: requestFunction_serving)
  obtain req1 where p1: "request_page example_runtime example_client ?t 1 1000 = ([req1], Inr [])"
    and o1: "nat_param req1 ''offset'' = 1000"
    using example_request_page [of ?t 1 1000] by (auto simp: requestFunction_serving)
  let ?v1 = "\<lparr> transactionsAll = take 100 (history 101), offset = 1000,
               continueIteration = True, issued = [req0] \<rparr>"
  let ?v2 = "\<lparr> transactionsAll = take 100 (history 101), offset = 2000,
               continueIteration = False, issued = [req0, req1] \<rparr>"
  have all_ok: "list_all (\<lambda>tx. \<not> date_gt (Some 0) (Date example_runtime (Some (raw_tx.datetime tx)))) page"
    for page by (simp add: example_dates_after_epoch list_all_iff)
  have tw: "takeWhile (\<lambda>tx. \<not> date_gt (Some 0) (Date example_runtime (Some (raw_tx.datetime tx)))) page = page"
    for page by (simp add: example_dates_after_epoch)
  have s0: "?post ?v0 = (None, ?v1)"
    using p0 by (simp add: post_page all_ok tw responseLength_def BITSTAMP_REQUEST_LIMIT_def)
  have s1: "?post ?v1 = (None, ?v2)"
    using p1 by (simp add: post_page responseLength_def BITSTAMP_REQUEST_LIMIT_def)
  have "doWhilst ?post check ?v0 = doWhilst ?post check ?v1"
    using s0 by (rule doWhilst_continue) (simp_all add: truthy_def check_def)
  also have "\<dots> = Some (None, ?v2)"
    using s1 by (rule doWhilst_stop) (simp_all add: truthy_def check_def)
  finally have "iterateRequestTxs example_runtime example_client ?t (Some 0)
      = Some ([req0, req1], Inr (take 100 (history 101)))"
    by (simp add: iterateRequestTxs_def done_cb_def truthy_def)
  with o0 o1 deposit_at_0_skipped deposit_at_0_after_epoch show ?thesis by simp
qed

theorem iterateRequestTxs_skips_transactions_witness:
  "map_option snd (iterateRequestTxs example_runtime example_client (serving (history 101)) (Some 0))
     \<noteq> Some (Inr (history 101))"
proof
  assume "map_option snd (iterateRequestTxs example_runtime example_client (serving (history 101)) (Some 0))
     = Some (Inr (history 101))"
  with iterateRequestTxs_skips_transactions have "take 100 (history 101) = history 101" by simp
  then have "length (take 100 (history 101)) = length (history 101)" by simp
  then show False by simp
qed

section \<open>Validation of the arguments\<close>

lemma outcome_case:
  "(case p of (reqs, Inl e) \<Rightarrow> (reqs, Inl e) | (reqs, Inr res) \<Rightarrow> (reqs, Inr (f res)))
     = (fst p, map_sum id f (snd p))"
  by (cases p; cases "snd p") auto

lemma map_sum_id_Inr: "map_sum id f x = Inr y \<longleftrightarrow> (\<exists>z. x = Inr z \<and> y = f z)"
  by (cases x) auto

lemma map_sum_id_Inl: "map_sum id f x = Inl e \<longleftrightarrow> x = Inl e"
  by (cases x) auto

lemma requestFunction_messages:
  "requestFunction rt r = Inl e \<Longrightarrow>
     code e = Some INSUFFICIENT_FUNDS
   \<or> message e \<in> {''There is an error in the response from the Bitstamp service...'',
                    ''The exchange service responded with an error...'',
                    ''Could not understand response from exchange server.'',
                    ''There is an error in the body of the response from the exchange service...''}"
  by (auto simp: requestFunction_def constructError_def Let_def
      split: if_splits body.splits option.splits)

lemma Bitstamp_post_errors:
  assumes "snd (Bitstamp_post rt self transport k action params) = Inl e"
  shows "e = Message ''Must provide key, secret and client ID to make this API request.''
   \<or> code e = Some INSUFFICIENT_FUNDS
   \<or> message e \<in> {''There is an error in the response from the Bitstamp service...'',
                    ''The exchange service responded with an error...'',
                    ''Could not understand response from exchange server.'',
                    ''There is an error in the body of the response from the exchange service...''}"
proof -
  obtain reqs r where p: "Bitstamp_post rt self transport k action params = (reqs, r)"
    by (cases "Bitstamp_post rt self transport k action params")
  with assms have r: "r = Inl e" by simp
  show ?thesis
  proof (cases "bitstamp.key self = [] \<or> bitstamp.secret self = [] \<or> bitstamp.clientId self = []")
    case True
    with Bitstamp_post_cases [OF p] r show ?thesis by auto
  next
    case False
    with Bitstamp_post_cases [OF p] r obtain req where
      "requestFunction rt (transport req) = Inl e" by auto
    from requestFunction_messages [OF this] show ?thesis by blast
  qed
qed

text \<open>
  C7 fails on the code. \<open>placeTrade\<close> rejects a limit price only when it is below zero:
  with a limit price of zero, a base amount of 1 BTC and the supported pair, it sends a buy
  order at price 0 to the exchange and answers with the placed trade.
\<close>

theorem placeTrade_accepts_zero_limit_price:
  "map url (fst (placeTrade example_runtime example_client (answering example_placed)
                   (Numeric (Finite 100000000)) (Numeric (Finite 0)) ''BTC'' ''USD''))
     = [''https://www.bitstamp.net/api/buy/'']
   \<and> map (\<lambda>req. case form req of Some ps \<Rightarrow> map_of ps ''price'' | None \<Rightarrow> None)
       (fst (placeTrade example_runtime example_client (answering example_placed)
               (Numeric (Finite 100000000)) (Numeric (Finite 0)) ''BTC'' ''USD''))
     = [Some (PNum (Finite 0))]
   \<and> snd (placeTrade example_runtime example_client (answering example_placed)
            (Numeric (Finite 100000000)) (Numeric (Finite 0)) ''BTC'' ''USD'')
     = Inr \<lparr> placed_trade.externalId = ''7'', type = ''limit'', state = ''open'',
             baseAmount = Finite 100000000, baseCurrency = ''BTC'', quoteCurrency = ''USD'',
             limitPrice = Finite 0, raw = \<lparr> placed_id = 7, orderType = Some ''buy'' \<rparr> \<rparr>"
  by (simp add: placeTrade_def toUpperCase_BTC_USD is_zero_def less_zero_def
      TYPE_SELL_ORDER_def TYPE_BUY_ORDER_def Bitstamp_post_def Bitstamp_request_def
      requestFunction_def answering_def truthy_def String_def decimal.simps lodash_extend_def
      example_client_def example_placed_def Bitstamp_def HOST_def Let_def)

theorem placeTrade_accepts_zero_limit_price_witness:
  "fst (placeTrade example_runtime example_client (answering example_placed)
          (Numeric (Finite 100000000)) (Numeric (Finite 0)) ''BTC'' ''USD'') \<noteq> []"
  using placeTrade_accepts_zero_limit_price by auto

lemma placeTrade_rejects_the_other_arguments:
  assumes "a = Undefined \<or> a = NonNumeric \<or> a = Numeric (Finite 0)
         \<or> p = Undefined \<or> p = NonNumeric \<or> (\<exists>l. p = Numeric l \<and> less_zero l)"
  shows "fst (placeTrade rt self transport a p base quote) = []
       \<and> (\<exists>m. snd (placeTrade rt self transport a p base quote) = Inl (Error m (Some MODULE_ERROR) None))"
  using assms
  by (auto simp: placeTrade_def Let_def constructError_def truthy_def is_zero_def
      split: argument.splits)

text \<open>
  C9. For every pair of codes that does not spell \<open>BTC\<close> and \<open>USD\<close> up to letter case,
  \<open>getTicker\<close>, \<open>getOrderBook\<close> and \<open>placeTrade\<close> answer with the validation error (code
  \<open>MODULE_ERROR\<close>, no cause) and hand no request to the HTTP library.
\<close>

theorem unsupported_pair_is_rejected:
  assumes "\<not> (spells base ''BTC'' \<and> spells quote ''USD'')"
  shows "getTicker rt self t1 base quote
       = ([], Inl (Error ''Bitstamp only supports BTC and USD as base and quote currencies, respectively.''
                     (Some MODULE_ERROR) None))
     \<and> getOrderBook rt self t2 base quote
       = ([], Inl (Error ''Bitstamp only supports BTC and USD as base and quote currencies, respectively.''
                     (Some MODULE_ERROR) None))
     \<and> placeTrade rt self t3 a p base quote
       = ([], Inl (Error ''Base and Quote currencies should be BTC and USD, respectively''
                     (Some MODULE_ERROR) None))"
  using assms
  by (auto simp: getTicker_def getOrderBook_def placeTrade_def Let_def UNSUPPORTED_PAIR_def
      constructError_def truthy_def toUpperCase_BTC toUpperCase_USD)

theorem unsupported_pair_is_rejected_witness:
  "\<not> (spells ''BTC'' ''BTC'' \<and> spells ''EUR'' ''USD'')
   \<and> getTicker example_runtime example_client (answering example_ticker) ''BTC'' ''EUR''
       = ([], Inl (Error ''Bitstamp only supports BTC and USD as base and quote currencies, respectively.''
                     (Some MODULE_ERROR) None))
   \<and> getOrderBook example_runtime example_client (answering example_book) ''BTC'' ''EUR''
       = ([], Inl (Error ''Bitstamp only supports BTC and USD as base and quote currencies, respectively.''
                     (Some MODULE_ERROR) None))
   \<and> placeTrade example_runtime example_client (answering example_placed)
        (Numeric (Finite 100000000)) (Numeric (Finite 650)) ''BTC'' ''EUR''
       = ([], Inl (Error ''Base and Quote currencies should be BTC and USD, respectively''
                     (Some MODULE_ERROR) None))"
proof -
  have n: "\<not> (spells ''BTC'' ''BTC'' \<and> spells ''EUR'' ''USD'')"
    by (simp add: letter_forms_def lower_letters_def upper_letters_def)
  from n unsupported_pair_is_rejected [OF n] show ?thesis by simp
qed

section \<open>Letter case of the currency codes\<close>

lemma Bitstamp_get_url:
  "map url (fst (Bitstamp_get rt self transport action))
     = [bitstamp.host self @ ''/api/'' @ action @ ''/'']"
  by (simp add: Bitstamp_get_def Bitstamp_request_def Let_def)

lemma Bitstamp_post_url:
  "has_credentials self \<Longrightarrow>
     map url (fst (Bitstamp_post rt self transport k action params))
       = [bitstamp.host self @ ''/api/'' @ action @ ''/'']"
  by (simp add: Bitstamp_post_def Bitstamp_request_def Let_def has_credentials_def)

text \<open>
  C10. For base and quote codes that spell \<open>BTC\<close> and \<open>USD\<close> up to letter case, the
  upper-cased codes are \<open>BTC\<close> and \<open>USD\<close>, and the pair passes validation.
  \<open>getTicker\<close> and \<open>getOrderBook\<close> send their one request, to \<open>/api/ticker/\<close> and to
  \<open>/api/order_book/\<close>, and answer with the error of \<open>_get\<close> or with the result built from
  its answer, which carries the codes \<open>BTC\<close> and \<open>USD\<close>. \<open>placeTrade\<close> does what it does
  for \<open>BTC\<close> and \<open>USD\<close> and never answers with the error for the pair; for a base amount
  other than zero and a limit price not below zero it hands the order to \<open>_post\<close>, as a
  sell order of the negated amount when the amount is below zero and as a buy order
  otherwise, and answers with the error of \<open>_post\<close> or with the placed trade built from its
  answer, which carries the codes \<open>BTC\<close> and \<open>USD\<close>; on a client with credentials the one
  request goes to \<open>/api/sell/\<close> or \<open>/api/buy/\<close>.
\<close>

theorem currency_codes_are_upper_cased:
  assumes "spells base ''BTC''" and "spells quote ''USD''"
  shows "toUpperCase base = ''BTC'' \<and> toUpperCase quote = ''USD''
     \<and> getTicker rt self t1 base quote
         = (fst (Bitstamp_get rt self t1 ''ticker''),
            map_sum id
              (\<lambda>res. \<lparr> ticker.baseCurrency = ''BTC'',
                        quoteCurrency = ''USD'',
                        bid = parseFloat rt (ticker_raw.bid res),
                        ask = parseFloat rt (ticker_raw.ask res),
                        lastPrice = parseFloat rt (last_price res),
                        high24Hours = parseFloat rt (high res),
                        low24Hours = parseFloat rt (low res),
                        vwap24Hours = parseFloat rt (vwap res),
                        volume24Hours = toSmallestSubunit rt (Number (parseFloat rt (volume res))) ''BTC'' \<rparr>)
              (snd (Bitstamp_get rt self t1 ''ticker'')))
     \<and> map url (fst (getTicker rt self t1 base quote)) = [bitstamp.host self @ ''/api/ticker/'']
     \<and> getOrderBook rt self t2 base quote
         = (fst (Bitstamp_get rt self t2 ''order_book''),
            map_sum id
              (\<lambda>res. \<lparr> order_book.baseCurrency = ''BTC'',
                        quoteCurrency = ''USD'',
                        bids = map (convertRawEntry rt)
                                 (case order_book_raw.bids res of Some b \<Rightarrow> b | None \<Rightarrow> []),
                        asks = map (convertRawEntry rt)
                                 (case order_book_raw.asks res of Some b \<Rightarrow> b | None \<Rightarrow> []) \<rparr>)
              (snd (Bitstamp_get rt self t2 ''order_book'')))
     \<and> map url (fst (getOrderBook rt self t2 base quote)) = [bitstamp.host self @ ''/api/order_book/'']
     \<and> placeTrade rt self t3 a p base quote = placeTrade rt self t3 a p ''BTC'' ''USD''
     \<and> snd (placeTrade rt self t3 a p base quote)
          \<noteq> Inl (Error ''Base and Quote currencies should be BTC and USD, respectively''
                      (Some MODULE_ERROR) None)
     \<and> (\<forall>x y. a = Numeric x \<and> \<not> is_zero x \<and> p = Numeric y \<and> \<not> less_zero y \<longrightarrow>
           placeTrade rt self t3 a p base quote
             = (fst (Bitstamp_post rt self t3 0
                       (if less_zero x then TYPE_SELL_ORDER else TYPE_BUY_ORDER)
                       [(''amount'', PNum (fromSmallestSubunit rt
                                             (if less_zero x then negate x else x) ''BTC'')),
                        (''price'', PNum y)]),
                map_sum id
                  (\<lambda>res. \<lparr> placed_trade.externalId = String (placed_id res),
                            type = ''limit'',
                            state = ''open'',
                            baseAmount = x,
                            baseCurrency = ''BTC'',
                            quoteCurrency = ''USD'',
                            limitPrice = y,
                            raw = res \<lparr> orderType :=
                                    Some (if less_zero x then TYPE_SELL_ORDER else TYPE_BUY_ORDER) \<rparr> \<rparr>)
                  (snd (Bitstamp_post rt self t3 0
                          (if less_zero x then TYPE_SELL_ORDER else TYPE_BUY_ORDER)
                          [(''amount'', PNum (fromSmallestSubunit rt
                                                (if less_zero x then negate x else x) ''BTC'')),
                           (''price'', PNum y)])))
           \<and> (has_credentials self \<longrightarrow>
                map url (fst (placeTrade rt self t3 a p base quote))
                  = [bitstamp.host self @ ''/api/''
                       @ (if less_zero x then TYPE_SELL_ORDER else TYPE_BUY_ORDER) @ ''/'']))"
proof -
  from assms have u: "toUpperCase base = ''BTC''" "toUpperCase quote = ''USD''"
    by (simp_all add: toUpperCase_BTC toUpperCase_USD)
  have tk: "getTicker rt self t1 base quote
         = (fst (Bitstamp_get rt self t1 ''ticker''),
            map_sum id
              (\<lambda>res. \<lparr> ticker.baseCurrency = ''BTC'',
                        quoteCurrency = ''USD'',
                        bid = parseFloat rt (ticker_raw.bid res),
                        ask = parseFloat rt (ticker_raw.ask res),
                        lastPrice = parseFloat rt (last_price res),
                        high24Hours = parseFloat rt (high res),
                        low24Hours = parseFloat rt (low res),
                        vwap24Hours = parseFloat rt (vwap res),
                        volume24Hours = toSmallestSubunit rt (Number (parseFloat rt (volume res))) ''BTC'' \<rparr>)
              (snd (Bitstamp_get rt self t1 ''ticker'')))"
    by (simp add: getTicker_def u Let_def outcome_case)
  have tk_url: "map url (fst (getTicker rt self t1 base quote)) = [bitstamp.host self @ ''/api/ticker/'']"
    by (simp add: tk Bitstamp_get_url)
  have ob: "getOrderBook rt self t2 base quote
         = (fst (Bitstamp_get rt self t2 ''order_book''),
            map_sum id
              (\<lambda>res. \<lparr> order_book.baseCurrency = ''BTC'',
                        quoteCurrency = ''USD'',
                        bids = map (convertRawEntry rt)
                                 (case order_book_raw.bids res of Some b \<Rightarrow> b | None \<Rightarrow> []),
                        asks = map (convertRawEntry rt)
                                 (case order_book_raw.asks res of Some b \<Rightarrow> b | None \<Rightarrow> []) \<rparr>)
              (snd (Bitstamp_get rt self t2 ''order_book'')))"
  proof -
    obtain r z where g: "Bitstamp_get rt self t2 ''order_book'' = (r, z)"
      by (cases "Bitstamp_get rt self t2 ''order_book''")
    then show ?thesis by (cases z) (simp_all add: getOrderBook_def u Let_def)
  qed
  have ob_url: "map url (fst (getOrderBook rt self t2 base quote)) = [bitstamp.host self @ ''/api/order_book/'']"
    by (simp add: ob Bitstamp_get_url)
  have pt: "placeTrade rt self t3 a p base quote = placeTrade rt self t3 a p ''BTC'' ''USD''"
    by (simp add: placeTrade_def u toUpperCase_BTC_USD)
  have pt_err: "snd (placeTrade rt self t3 a p base quote)
          \<noteq> Inl (Error ''Base and Quote currencies should be BTC and USD, respectively''
                      (Some MODULE_ERROR) None)"
    by (auto simp: placeTrade_def u Let_def constructError_def truthy_def outcome_case
        map_sum_id_Inl
        dest!: Bitstamp_post_errors
        split: argument.splits)
  have pt_run: "placeTrade rt self t3 a p base quote
             = (fst (Bitstamp_post rt self t3 0
                       (if less_zero x then TYPE_SELL_ORDER else TYPE_BUY_ORDER)
                       [(''amount'', PNum (fromSmallestSubunit rt
                                             (if less_zero x then negate x else x) ''BTC'')),
                        (''price'', PNum y)]),
                map_sum id
                  (\<lambda>res. \<lparr> placed_trade.externalId = String (placed_id res),
                            type = ''limit'',
                            state = ''open'',
                            baseAmount = x,
                            baseCurrency = ''BTC'',
                            quoteCurrency = ''USD'',
                            limitPrice = y,
                            raw = res \<lparr> orderType :=
                                    Some (if less_zero x then TYPE_SELL_ORDER else TYPE_BUY_ORDER) \<rparr> \<rparr>)
                  (snd (Bitstamp_post rt self t3 0
                          (if less_zero x then TYPE_SELL_ORDER else TYPE_BUY_ORDER)
                          [(''amount'', PNum (fromSmallestSubunit rt
                                                (if less_zero x then negate x else x) ''BTC'')),
                           (''price'', PNum y)])))"
    (is "_ = ?run x y")
    if "a = Numeric x" "\<not> is_zero x" "p = Numeric y" "\<not> less_zero y" for x y
    using that
    by (cases "less_zero x")
      (simp_all add: placeTrade_def u Let_def outcome_case TYPE_SELL_ORDER_def TYPE_BUY_ORDER_def)
  have pt_url: "map url (fst (placeTrade rt self t3 a p base quote))
                  = [bitstamp.host self @ ''/api/''
                       @ (if less_zero x then TYPE_SELL_ORDER else TYPE_BUY_ORDER) @ ''/'']"
    if "a = Numeric x" "\<not> is_zero x" "p = Numeric y" "\<not> less_zero y" "has_credentials self" for x y
    unfolding pt_run [OF that(1-4)] using that(5) by (simp add: Bitstamp_post_url)
  from u tk tk_url ob ob_url pt pt_err pt_run pt_url show ?thesis by blast
qed

theorem currency_codes_are_upper_cased_witness:
  "spells ''btc'' ''BTC'' \<and> spells ''usd'' ''USD''
   \<and> spells [CHR ''u'', CHR 0xC5, CHR 0xBF, CHR ''d''] ''USD''
   \<and> map url (fst (getTicker example_runtime example_client (answering example_ticker)
                     ''btc'' [CHR ''u'', CHR 0xC5, CHR 0xBF, CHR ''d'']))
       = [''https://www.bitstamp.net/api/ticker/'']
   \<and> map_sum id (\<lambda>tk. (ticker.baseCurrency tk, ticker.quoteCurrency tk))
       (snd (getTicker example_runtime example_client (answering example_ticker)
               ''btc'' [CHR ''u'', CHR 0xC5, CHR 0xBF, CHR ''d'']))
       = Inr (''BTC'', ''USD'')
   \<and> map url (fst (placeTrade example_runtime example_client (answering example_placed)
                     (Numeric (Finite 100000000)) (Numeric (Finite 650)) ''btc'' ''usd''))
       = [''https://www.bitstamp.net/api/buy/'']
   \<and> snd (placeTrade example_runtime example_client (answering example_placed)
            (Numeric (Finite 100000000)) (Numeric (Finite 650)) ''btc'' ''usd'')
       = Inr \<lparr> placed_trade.externalId = ''7'', type = ''limit'', state = ''open'',
               baseAmount = Finite 100000000, baseCurrency = ''BTC'', quoteCurrency = ''USD'',
               limitPrice = Finite 650, raw = \<lparr> placed_id = 7, orderType = Some ''buy'' \<rparr> \<rparr>"
proof -
  have b: "spells ''btc'' ''BTC''" and q: "spells ''usd'' ''USD''"
    and l: "spells [CHR ''u'', CHR 0xC5, CHR 0xBF, CHR ''d''] ''USD''"
    by (simp_all add: letter_forms_def lower_letters_def upper_letters_def)
  have c: "has_credentials example_client"
    by (simp add: has_credentials_def example_client_def Bitstamp_def)
  have n: "\<not> is_zero (Finite 100000000)" "\<not> less_zero (Finite 100000000)" "\<not> less_zero (Finite 650)"
    by (simp_all add: is_zero_def less_zero_def)
  note tk = currency_codes_are_upper_cased [OF b l,
      where rt = example_runtime and self = example_client
        and ?t1.0 = "answering example_ticker" and ?t2.0 = "answering example_book"
        and ?t3.0 = "answering example_placed"
        and a = "Numeric (Finite 100000000)" and p = "Numeric (Finite 650)"]
  note tk_run = tk [THEN conjunct2, THEN conjunct2, THEN conjunct1]
  note tk_url = tk [THEN conjunct2, THEN conjunct2, THEN conjunct2, THEN conjunct1]
  note pt = currency_codes_are_upper_cased [OF b q,
      where rt = example_runtime and self = example_client
        and ?t1.0 = "answering example_ticker" and ?t2.0 = "answering example_book"
        and ?t3.0 = "answering example_placed"
        and a = "Numeric (Finite 100000000)" and p = "Numeric (Finite 650)"]
  from n have "Numeric (Finite 100000000) = Numeric (Finite 100000000)
      \<and> \<not> is_zero (Finite 100000000)
      \<and> Numeric (Finite 650) = Numeric (Finite 650) \<and> \<not> less_zero (Finite 650)"
    by simp
  note pt_all = pt [THEN conjunct2, THEN conjunct2, THEN conjunct2, THEN conjunct2,
      THEN conjunct2, THEN conjunct2, THEN conjunct2, THEN conjunct2, rule_format, OF this]
  note pt_run = pt_all [THEN conjunct1]
  note pt_url = pt_all [THEN conjunct2, rule_format, OF c]
  have g: "snd (Bitstamp_get example_runtime example_client (answering example_ticker) ''ticker'')
      = Inr example_ticker"
    by (simp add: Bitstamp_get_def Bitstamp_request_def requestFunction_def answering_def
        truthy_def Let_def)
  have s: "snd (Bitstamp_post example_runtime example_client (answering example_placed) 0 ''buy''
                  [(''amount'', PNum (fromSmallestSubunit example_runtime (Finite 100000000) ''BTC'')),
                   (''price'', PNum (Finite 650))])
      = Inr example_placed"
    by (simp add: Bitstamp_post_def Bitstamp_request_def requestFunction_def answering_def
        truthy_def Let_def example_client_def Bitstamp_def)
  have h: "bitstamp.host example_client = ''https://www.bitstamp.net''"
    by (simp add: example_client_def Bitstamp_def HOST_def)
  from tk_url have "map url (fst (getTicker example_runtime example_client (answering example_ticker)
                     ''btc'' [CHR ''u'', CHR 0xC5, CHR 0xBF, CHR ''d'']))
       = [''https://www.bitstamp.net/api/ticker/'']"
    by (simp add: h)
  moreover from g have "map_sum id (\<lambda>tk. (ticker.baseCurrency tk, ticker.quoteCurrency tk))
       (snd (getTicker example_runtime example_client (answering example_ticker)
               ''btc'' [CHR ''u'', CHR 0xC5, CHR 0xBF, CHR ''d'']))
       = Inr (''BTC'', ''USD'')"
    by (simp add: tk_run)
  moreover from pt_url n have "map url (fst (placeTrade example_runtime example_client
                     (answering example_placed)
                     (Numeric (Finite 100000000)) (Numeric (Finite 650)) ''btc'' ''usd''))
       = [''https://www.bitstamp.net/api/buy/'']"
    by (simp add: h TYPE_BUY_ORDER_def)
  moreover from s n have "snd (placeTrade example_runtime example_client (answering example_placed)
            (Numeric (Finite 100000000)) (Numeric (Finite 650)) ''btc'' ''usd'')
       = Inr \<lparr> placed_trade.externalId = ''7'', type = ''limit'', state = ''open'',
               baseAmount = Finite 100000000, baseCurrency = ''BTC'', quoteCurrency = ''USD'',
               limitPrice = Finite 650, raw = \<lparr> placed_id = 7, orderType = Some ''buy'' \<rparr> \<rparr>"
    unfolding pt_run by (simp add: TYPE_BUY_ORDER_def example_placed_def String_def decimal.simps)
  ultimately show ?thesis using b q l by simp
qed

section \<open>The shape of the errors\<close>

lemma coded_requestFunction: "requestFunction rt r = Inl e \<Longrightarrow> coded e"
  by (auto dest: requestFunction_error simp: coded_def)

lemma cause_requestFunction:
  "requestFunction rt r = Inl e \<Longrightarrow>
     cause e = (if code e = Some INSUFFICIENT_FUNDS then None else original_cause rt r)"
  by (auto simp: requestFunction_def original_cause_def constructError_def Let_def truthy_def
      split: if_splits body.splits option.splits js_error.splits)

lemma Bitstamp_get_error:
  assumes "fst (Bitstamp_get rt self t action) = reqs"
    and "snd (Bitstamp_get rt self t action) = Inl e"
  shows "coded e \<and> (\<exists>req. reqs = [req] \<and> requestFunction rt (t req) = Inl e)"
proof -
  from assms have "Bitstamp_get rt self t action = (reqs, Inl e)"
    by (cases "Bitstamp_get rt self t action") simp
  from Bitstamp_get_cases [OF this] show ?thesis
    by (auto dest: coded_requestFunction [OF sym])
qed

lemma Bitstamp_post_error:
  assumes "has_credentials self"
    and "fst (Bitstamp_post rt self t k action params) = reqs"
    and "snd (Bitstamp_post rt self t k action params) = Inl e"
  shows "coded e \<and> (\<exists>req. reqs = [req] \<and> requestFunction rt (t req) = Inl e)"
proof -
  from assms(2,3) have "Bitstamp_post rt self t k action params = (reqs, Inl e)"
    by (cases "Bitstamp_post rt self t k action params") simp
  from Bitstamp_post_cases [OF this] assms(1) show ?thesis
    by (auto dest: coded_requestFunction [OF sym] simp: has_credentials_def)
qed

lemma iterateRequestTxs_error:
  assumes "iterateRequestTxs rt self t d = Some (reqs, Inl e)"
  shows "coded e \<and> (\<exists>k off rs c. request_page rt self t k off = (rs, Inl c) \<and> cause e = Some c)"
proof -
  let ?v0 = "\<lparr> transactionsAll = [], offset = 0, continueIteration = True, issued = [] \<rparr>"
  from assms obtain x v where run: "doWhilst (post rt self t d) check ?v0 = Some (x, v)"
    and d: "done_cb x (transactionsAll v) = Inl e"
    by (auto simp: iterateRequestTxs_def split: option.splits)
  from d have tx: "truthy x" and e: "e = constructError ''Trades could not be listed.'' MODULE_ERROR x"
    by (auto simp: done_cb_def split: if_splits)
  from tx obtain c where c: "x = Some c" by (cases x) (auto simp: truthy_def)
  from doWhilst_error_origin [OF run] tx obtain u where "post rt self t d u = (x, v)" by auto
  with c post_origin [of rt self t d u c v] obtain k off rs where
    "request_page rt self t k off = (rs, Inl c)" by auto
  with e c tx show ?thesis by (auto simp: constructError_def coded_def)
qed


text \<open>
  The errors built with \<open>constructError\<close>. An error of the response interpreter is an
  \<open>Error\<close> object with a code and a message; it carries the original cause of the failed
  exchange, except that an insufficient-funds error carries the matched message and no
  cause. An error that \<open>getTicker\<close> or \<open>getOrderBook\<close>, or on a client with key, secret and
  client identifier \<open>getBalance\<close>, \<open>getTrade\<close> or \<open>placeTrade\<close>, passes to the callback
  is a validation error with a code and no cause, raised before any request, or the
  interpreter's error for the one request sent. An error that the promise of
  \<open>listTransactions\<close> or of \<open>listTrades\<close> is rejected with is an \<open>Error\<close> object with a
  code whose cause is the error of a page request.
\<close>

lemma coded_errors_of_the_operations:
  "(requestFunction rt r = Inl e \<longrightarrow>
      coded e \<and> cause e = (if code e = Some INSUFFICIENT_FUNDS then None else original_cause rt r))
   \<and> (getTicker rt self t1 base quote = (reqs, Inl e) \<longrightarrow>
      coded e \<and> (reqs = [] \<and> cause e = None
                 \<or> (\<exists>req. reqs = [req] \<and> requestFunction rt (t1 req) = Inl e)))
   \<and> (getOrderBook rt self t2 base quote = (reqs, Inl e) \<longrightarrow>
      coded e \<and> (reqs = [] \<and> cause e = None
                 \<or> (\<exists>req. reqs = [req] \<and> requestFunction rt (t2 req) = Inl e)))
   \<and> (has_credentials self \<and> getBalance rt self t3 = (reqs, Inl e) \<longrightarrow>
      coded e \<and> (\<exists>req. reqs = [req] \<and> requestFunction rt (t3 req) = Inl e))
   \<and> (has_credentials self \<and> getTrade rt self t4 trade = (reqs, Inl e) \<longrightarrow>
      coded e \<and> (reqs = [] \<and> cause e = None
                 \<or> (\<exists>req. reqs = [req] \<and> requestFunction rt (t4 req) = Inl e)))
   \<and> (has_credentials self \<and> placeTrade rt self t5 a p base quote = (reqs, Inl e) \<longrightarrow>
      coded e \<and> (reqs = [] \<and> cause e = None
                 \<or> (\<exists>req. reqs = [req] \<and> requestFunction rt (t5 req) = Inl e)))
   \<and> (listTransactions rt self t6 latestTransaction = Some (reqs, Inl e) \<longrightarrow>
      coded e \<and> (\<exists>k off rs c. request_page rt self t6 k off = (rs, Inl c) \<and> cause e = Some c))
   \<and> (listTrades rt self t6 latestTrade = Inr (Some (reqs, Inl e)) \<longrightarrow>
      coded e \<and> (\<exists>k off rs c. request_page rt self t6 k off = (rs, Inl c) \<and> cause e = Some c))"
proof -
  have interpreter: "coded e \<and> cause e = (if code e = Some INSUFFICIENT_FUNDS then None else original_cause rt r)"
    if "requestFunction rt r = Inl e"
    using that by (simp add: coded_requestFunction cause_requestFunction)
  have ticker: "coded e \<and> (reqs = [] \<and> cause e = None
                 \<or> (\<exists>req. reqs = [req] \<and> requestFunction rt (t1 req) = Inl e))"
    if "getTicker rt self t1 base quote = (reqs, Inl e)"
    using that
    by (auto simp: getTicker_def Let_def outcome_case map_sum_id_Inl UNSUPPORTED_PAIR_def
        constructError_def coded_def truthy_def
        split: if_splits dest!: Bitstamp_get_error [OF refl])
  have book: "coded e \<and> (reqs = [] \<and> cause e = None
                 \<or> (\<exists>req. reqs = [req] \<and> requestFunction rt (t2 req) = Inl e))"
    if "getOrderBook rt self t2 base quote = (reqs, Inl e)"
    using that
    by (auto simp: getOrderBook_def Let_def outcome_case map_sum_id_Inl UNSUPPORTED_PAIR_def
        constructError_def coded_def truthy_def
        split: if_splits dest!: Bitstamp_get_error [OF refl])
  have balance: "coded e \<and> (\<exists>req. reqs = [req] \<and> requestFunction rt (t3 req) = Inl e)"
    if "has_credentials self" "getBalance rt self t3 = (reqs, Inl e)"
    using that(2)
    by (auto simp: getBalance_def outcome_case map_sum_id_Inl
        dest!: Bitstamp_post_error [OF that(1) refl])
  have trade: "coded e \<and> (reqs = [] \<and> cause e = None
                 \<or> (\<exists>req. reqs = [req] \<and> requestFunction rt (t4 req) = Inl e))"
    if c: "has_credentials self" and g: "getTrade rt self t4 trade = (reqs, Inl e)"
  proof (cases trade)
    case None
    with g show ?thesis
      by (auto simp: getTrade_def constructError_def coded_def truthy_def)
  next
    case (Some tr)
    show ?thesis
    proof (cases "raw_orderType tr \<noteq> TYPE_SELL_ORDER \<and> raw_orderType tr \<noteq> TYPE_BUY_ORDER")
      case True
      with g Some show ?thesis
        by (auto simp: getTrade_def constructError_def coded_def truthy_def)
    next
      case False
      obtain rs x where p: "Bitstamp_post rt self t4 0 ''order_status'' [(''id'', PInt (raw_id tr))]
          = (rs, x)"
        by (cases "Bitstamp_post rt self t4 0 ''order_status'' [(''id'', PInt (raw_id tr))]")
      with g Some False have "rs = reqs" "x = Inl e"
        by (cases x; auto simp: getTrade_def Let_def)+
      with p Bitstamp_post_error [OF c, of rt t4 0 "''order_status''" "[(''id'', PInt (raw_id tr))]" reqs e]
      show ?thesis by simp
    qed
  qed
  have place: "coded e \<and> (reqs = [] \<and> cause e = None
                 \<or> (\<exists>req. reqs = [req] \<and> requestFunction rt (t5 req) = Inl e))"
    if "has_credentials self" "placeTrade rt self t5 a p base quote = (reqs, Inl e)"
    using that(2)
    by (auto simp: placeTrade_def Let_def outcome_case map_sum_id_Inl
        constructError_def coded_def truthy_def
        split: argument.splits if_splits dest!: Bitstamp_post_error [OF that(1) refl])
  have transactions: "coded e \<and> (\<exists>k off rs c. request_page rt self t6 k off = (rs, Inl c) \<and> cause e = Some c)"
    if "listTransactions rt self t6 latestTransaction = Some (reqs, Inl e)"
  proof -
    from that have "iterateRequestTxs rt self t6 (latestTxDate_of_transaction rt latestTransaction)
        = Some (reqs, Inl e)"
      by (auto simp: listTransactions_def Let_def split: option.splits prod.splits sum.splits)
    then show ?thesis by (rule iterateRequestTxs_error)
  qed
  have trades: "coded e \<and> (\<exists>k off rs c. request_page rt self t6 k off = (rs, Inl c) \<and> cause e = Some c)"
    if "listTrades rt self t6 latestTrade = Inr (Some (reqs, Inl e))"
  proof -
    from that obtain d where "iterateRequestTxs rt self t6 d = Some (reqs, Inl e)"
      by (auto simp: listTrades_def Let_def split: option.splits prod.splits sum.splits)
    then show ?thesis by (rule iterateRequestTxs_error)
  qed
  from interpreter ticker book balance trade place transactions trades show ?thesis by blast
qed


text \<open>
  When the exchange answers with an insufficient-funds message, the error that
  \<open>getBalance\<close> passes on holds the message and a code, and no cause, although the
  exchange sent an error payload.
\<close>

lemma insufficient_funds_error_has_no_cause:
  "snd (getBalance example_runtime example_client
          (refusing (ErrorFields [(''__all__'', [no_funds_to_sell])]) example_balance))
     = Inl (Error no_funds_to_sell (Some INSUFFICIENT_FUNDS) None)"
  using sell_pattern_example buy_pattern_example
  by (simp add: getBalance_def Bitstamp_post_def Bitstamp_request_def requestFunction_def
      refusing_def truthy_def truthy_payload_def all_errors_def or_else_def truthy_string_def
      constructError_def no_funds_to_sell_def example_client_def Bitstamp_def Let_def)

text \<open>
  For a latest trade whose raw object has an empty list of fills, \<open>listTrades\<close> throws
  the exception of the run time, which has no code, before it returns a promise.
\<close>

lemma listTrades_throws_without_fills:
  "listTrades rt self t (Some \<lparr> raw_transactions = Some [], raw_datetime = d \<rparr>) = Inl TypeError"
  "\<not> coded TypeError"
  by (simp_all add: listTrades_def latestTxDate_of_trade_def TypeError_def coded_def)

text \<open>
  C8 fails on the code. On a client built without key, secret or client identifier,
  \<open>_post\<close> calls back with a bare string, where every other failure of the module is
  built with \<open>constructError\<close>. \<open>getBalance\<close>, \<open>getTrade\<close> (for a trade whose order type
  is \<open>sell\<close> or \<open>buy\<close>) and \<open>placeTrade\<close> (for the supported pair, a base amount other than
  zero and a limit price not below zero) pass the string on as it is: their caller gets
  no error object and no code.
\<close>

theorem missing_credentials_yield_a_plain_string:
  assumes "\<not> has_credentials self"
  shows "getBalance rt self t1
           = ([], Inl (Message ''Must provide key, secret and client ID to make this API request.''))
     \<and> (raw_orderType trade = TYPE_SELL_ORDER \<or> raw_orderType trade = TYPE_BUY_ORDER \<longrightarrow>
          getTrade rt self t2 (Some trade)
            = ([], Inl (Message ''Must provide key, secret and client ID to make this API request.'')))
     \<and> (\<not> is_zero x \<and> \<not> less_zero y \<longrightarrow>
          placeTrade rt self t3 (Numeric x) (Numeric y) ''BTC'' ''USD''
            = ([], Inl (Message ''Must provide key, secret and client ID to make this API request.'')))
     \<and> \<not> coded (Message ''Must provide key, secret and client ID to make this API request.'')"
proof -
  from assms have p: "Bitstamp_post rt self t k action params
      = ([], Inl (Message ''Must provide key, secret and client ID to make this API request.''))"
    for t :: "'a transport" and k action params
    by (auto simp: Bitstamp_post_def has_credentials_def)
  have "getBalance rt self t1
           = ([], Inl (Message ''Must provide key, secret and client ID to make this API request.''))"
    by (simp add: getBalance_def p)
  moreover have "getTrade rt self t2 (Some trade)
            = ([], Inl (Message ''Must provide key, secret and client ID to make this API request.''))"
    if "raw_orderType trade = TYPE_SELL_ORDER \<or> raw_orderType trade = TYPE_BUY_ORDER"
    using that by (auto simp: getTrade_def p)
  moreover have "placeTrade rt self t3 (Numeric x) (Numeric y) ''BTC'' ''USD''
            = ([], Inl (Message ''Must provide key, secret and client ID to make this API request.''))"
    if "\<not> is_zero x \<and> \<not> less_zero y"
    using that by (simp add: placeTrade_def toUpperCase_BTC_USD Let_def p)
  moreover have "\<not> coded (Message ''Must provide key, secret and client ID to make this API request.'')"
    by (simp add: coded_def)
  ultimately show ?thesis by blast
qed

theorem missing_credentials_yield_a_plain_string_witness:
  "\<not> has_credentials anonymous_client
   \<and> getBalance example_runtime anonymous_client (answering example_balance)
       = ([], Inl (Message ''Must provide key, secret and client ID to make this API request.''))
   \<and> getTrade example_runtime anonymous_client (answering two_fills)
        (Some \<lparr> raw_id = 5, raw_orderType = ''buy'' \<rparr>)
       = ([], Inl (Message ''Must provide key, secret and client ID to make this API request.''))
   \<and> placeTrade example_runtime anonymous_client (answering example_placed)
        (Numeric (Finite 100000000)) (Numeric (Finite 650)) ''BTC'' ''USD''
       = ([], Inl (Message ''Must provide key, secret and client ID to make this API request.''))
   \<and> \<not> coded (Message ''Must provide key, secret and client ID to make this API request.'')"
proof -
  have c: "\<not> has_credentials anonymous_client"
    by (simp add: has_credentials_def anonymous_client_def Bitstamp_def)
  from c missing_credentials_yield_a_plain_string [OF c,
      where rt = example_runtime and ?t1.0 = "answering example_balance"
        and ?t2.0 = "answering two_fills" and trade = "\<lparr> raw_id = 5, raw_orderType = ''buy'' \<rparr>"
        and ?t3.0 = "answering example_placed" and x = "Finite 100000000" and y = "Finite 650"]
  show ?thesis
    by (simp add: TYPE_BUY_ORDER_def is_zero_def less_zero_def)
qed

end
